theory Spec2Isabelle
  imports Complex_Main "HOL-Library.AList" "HOL-Library.Multiset"
begin

section \<open>Python building blocks\<close>

text \<open>
  The exceptions that the modelled code can meet: a subscript or \<open>del\<close> on a missing
  dictionary key, a division by zero, and \<open>max\<close> of an empty sequence.
\<close>

datatype py_error = KeyError | ZeroDivisionError | ValueError

text \<open>
  A Python \<open>dict\<close> keeps its keys in insertion order, and the scans of the mission stack
  depend on that order, so a dictionary is an association list. Assigning to a key that
  is present replaces the value where it stands, assigning to a new key appends it
  (\<open>AList.update\<close>); \<open>del\<close> takes the key out (\<open>AList.delete\<close>). A dictionary of the
  program has every key once: \<open>distinct (map fst d)\<close>.
\<close>

type_synonym ('k, 'v) dict = "('k \<times> 'v) list"

definition dict_contains :: "('k, 'v) dict \<Rightarrow> 'k \<Rightarrow> bool" where
  "dict_contains d k = (map_of d k \<noteq> None)"

definition dict_getitem :: "('k, 'v) dict \<Rightarrow> 'k \<Rightarrow> py_error + 'v" where
  "dict_getitem d k = (case map_of d k of None \<Rightarrow> Inl KeyError | Some v \<Rightarrow> Inr v)"

definition dict_setitem :: "('k, 'v) dict \<Rightarrow> 'k \<Rightarrow> 'v \<Rightarrow> ('k, 'v) dict" where
  "dict_setitem d k v = AList.update k v d"

definition dict_delitem :: "('k, 'v) dict \<Rightarrow> 'k \<Rightarrow> py_error + ('k, 'v) dict" where
  "dict_delitem d k = (if dict_contains d k then Inr (AList.delete k d) else Inl KeyError)"

text \<open>\<open>d.get(k, default)\<close> on a key that may be absent.\<close>

definition py_get :: "'a option \<Rightarrow> 'a \<Rightarrow> 'a" where
  "py_get v dflt = (case v of None \<Rightarrow> dflt | Some x \<Rightarrow> x)"

text \<open>\<open>needle in hay\<close> on strings: \<open>needle\<close> occurs as a contiguous run of \<open>hay\<close>.\<close>

fun str_contains :: "string \<Rightarrow> string \<Rightarrow> bool" where
  "str_contains needle [] = (needle = [])"
| "str_contains needle (c # cs) =
     (take (length needle) (c # cs) = needle \<or> str_contains needle cs)"

definition endswith :: "string \<Rightarrow> string \<Rightarrow> bool" where
  "endswith s suffix = (length suffix \<le> length s \<and> drop (length s - length suffix) s = suffix)"

text \<open>
  True division \<open>a / b\<close>. Python floats are modelled by the reals: rounding and the
  finite range of a float are outside the model.
\<close>

definition py_truediv :: "real \<Rightarrow> real \<Rightarrow> py_error + real" where
  "py_truediv a b = (if b = 0 then Inl ZeroDivisionError else Inr (a / b))"

fun py_max :: "int list \<Rightarrow> py_error + int" where
  "py_max [] = Inl ValueError"
| "py_max (x # xs) = Inr (fold max xs x)"

section \<open>Events as the stack receives them\<close>

text \<open>
  \<open>process_event\<close> takes a dictionary and reads it with \<open>get\<close> and a default. The keys
  it reads are the fields below, each with the type that \<open>events.py\<close> declares for it;
  \<open>None\<close> is an absent key.
\<close>

record event_data =
  event :: "string option"
  MissionID :: "int option"
  Name :: "string option"
  LocalisedName :: "string option"
  Faction :: "string option"
  TargetFaction :: "string option"
  KillCount :: "int option"
  Reward :: "int option"
  Expiry :: "string option"
  Wing :: "bool option"
  DestinationSystem :: "string option"
  DestinationStation :: "string option"
  timestamp :: "string option"

section \<open>The dictionaries of to\_dict and get\_summary\<close>

text \<open>
  \<open>MissionData.to_dict\<close>, \<open>FactionMissions.to_dict\<close> and \<open>get_summary\<close> build dictionaries
  with fixed keys; each is a record with the keys as fields.
\<close>

record mission_dict =
  mission_id :: int
  name :: string
  localised_name :: string
  faction :: string
  target_faction :: string
  initial_kill_count :: int
  current_kill_count :: int
  reward :: int
  expiry :: string
  wing :: bool
  destination_system :: string
  destination_station :: string
  timestamp :: string

record faction_dict =
  faction_name :: string
  missions :: "(string, mission_dict) dict"
  total_initial_kills :: int
  total_current_kills :: int
  total_reward :: int
  progress_percentage :: real

record target_summary =
  factions :: "(string, faction_dict) dict"
  total_initial_kills :: int
  total_current_kills :: int
  total_reward :: int
  total_missions :: int

record summary =
  target_factions :: "(string, target_summary) dict"
  total_initial_kills :: int
  total_current_kills :: int
  total_reward :: int
  total_missions :: int

section \<open>mission\_stack.py: MissionData\<close>

text \<open>
  \<open>expiry_datetime\<close> holds what \<open>datetime.fromisoformat\<close> returns; the parser belongs to
  the Python library and is a parameter here, of type \<open>string \<Rightarrow> 'dt option\<close>, with
  \<open>None\<close> for the \<open>ValueError\<close> that \<open>__init__\<close> catches.
\<close>

record 'dt MissionData =
  mission_id :: int
  name :: string
  localised_name :: string
  faction :: string
  target_faction :: string
  initial_kill_count :: int
  current_kill_count :: int
  reward :: int
  expiry :: string
  wing :: bool
  destination_system :: string
  destination_station :: string
  timestamp :: string
  expiry_datetime :: "'dt option"

definition MissionData_init :: "(string \<Rightarrow> 'dt option) \<Rightarrow> event_data \<Rightarrow> 'dt MissionData" where
  "MissionData_init fromisoformat mission_data =
     (let exp = py_get (Expiry mission_data) [];
          exp' = (if exp \<noteq> [] \<and> endswith exp ''Z'' then butlast exp else exp)
      in \<lparr> mission_id = py_get (MissionID mission_data) 0,
           name = py_get (Name mission_data) [],
           localised_name = py_get (LocalisedName mission_data) [],
           faction = py_get (Faction mission_data) [],
           target_faction = py_get (TargetFaction mission_data) [],
           initial_kill_count = py_get (KillCount mission_data) 0,
           current_kill_count = py_get (KillCount mission_data) 0,
           reward = py_get (Reward mission_data) 0,
           expiry = exp',
           wing = py_get (Wing mission_data) False,
           destination_system = py_get (DestinationSystem mission_data) [],
           destination_station = py_get (DestinationStation mission_data) [],
           timestamp = py_get (event_data.timestamp mission_data) [],
           expiry_datetime = (if exp \<noteq> [] then fromisoformat exp' else None) \<rparr>)"

definition update_kill_count :: "'dt MissionData \<Rightarrow> int \<Rightarrow> 'dt MissionData" where
  "update_kill_count self new_kill_count = self\<lparr>current_kill_count := new_kill_count\<rparr>"

definition MissionData_to_dict :: "'dt MissionData \<Rightarrow> mission_dict" where
  "MissionData_to_dict self =
     \<lparr> mission_dict.mission_id = mission_id self,
       mission_dict.name = name self,
       mission_dict.localised_name = localised_name self,
       mission_dict.faction = faction self,
       mission_dict.target_faction = target_faction self,
       mission_dict.initial_kill_count = initial_kill_count self,
       mission_dict.current_kill_count = current_kill_count self,
       mission_dict.reward = reward self,
       mission_dict.expiry = expiry self,
       mission_dict.wing = wing self,
       mission_dict.destination_system = destination_system self,
       mission_dict.destination_station = destination_station self,
       mission_dict.timestamp = timestamp self \<rparr>"

section \<open>mission\_stack.py: FactionMissions\<close>

record 'dt FactionMissions =
  faction_name :: string
  missions :: "(string, 'dt MissionData) dict"
  total_initial_kills :: int
  total_current_kills :: int
  total_reward :: int

definition FactionMissions_init :: "string \<Rightarrow> 'dt FactionMissions" where
  "FactionMissions_init fname =
     \<lparr> faction_name = fname, missions = [], total_initial_kills = 0,
       total_current_kills = 0, total_reward = 0 \<rparr>"

text \<open>
  The methods mutate \<open>self\<close>; the model returns the ledger after the call, together with
  what the call returned or raised. \<open>existing\<close> is the object stored in the dictionary,
  so updating it is an assignment to its key.
\<close>

definition add_mission ::
  "'dt FactionMissions \<Rightarrow> 'dt MissionData \<Rightarrow> 'dt FactionMissions \<times> (py_error + unit)" where
  "add_mission self mission_data =
     (let key = localised_name mission_data in
      if dict_contains (missions self) key then
        (case dict_getitem (missions self) key of
           Inl e \<Rightarrow> (self, Inl e)
         | Inr existing \<Rightarrow>
             (self\<lparr>missions := dict_setitem (missions self) key
                 (update_kill_count existing (current_kill_count mission_data))\<rparr>, Inr ()))
      else
        (self\<lparr>missions := dict_setitem (missions self) key mission_data,
              total_initial_kills := total_initial_kills self + initial_kill_count mission_data,
              total_current_kills := total_current_kills self + current_kill_count mission_data,
              total_reward := total_reward self + reward mission_data\<rparr>, Inr ()))"



text \<open>
  \<open>remove_mission\<close> walks \<open>list(self.missions.items())\<close>, a copy taken before the loop,
  and returns at the first record with the mission id.
\<close>

fun remove_mission_loop ::
  "(string \<times> 'dt MissionData) list \<Rightarrow> 'dt FactionMissions \<Rightarrow> int
     \<Rightarrow> 'dt FactionMissions \<times> (py_error + bool)" where
  "remove_mission_loop [] self mid = (self, Inr False)"
| "remove_mission_loop ((key, mission) # rest) self mid =
     (if mission_id mission = mid then
        (let self1 = self\<lparr>total_initial_kills := total_initial_kills self - initial_kill_count mission,
                          total_current_kills := total_current_kills self - current_kill_count mission,
                          total_reward := total_reward self - reward mission\<rparr>
         in case dict_delitem (missions self1) key of
              Inl e \<Rightarrow> (self1, Inl e)
            | Inr d \<Rightarrow> (self1\<lparr>missions := d\<rparr>, Inr True))
      else remove_mission_loop rest self mid)"

definition remove_mission ::
  "'dt FactionMissions \<Rightarrow> int \<Rightarrow> 'dt FactionMissions \<times> (py_error + bool)" where
  "remove_mission self mid = remove_mission_loop (missions self) self mid"

definition get_progress_percentage :: "'dt FactionMissions \<Rightarrow> py_error + real" where
  "get_progress_percentage self =
     (if total_initial_kills self = 0 then Inr 0
      else case py_truediv (real_of_int (total_current_kills self))
                           (real_of_int (total_initial_kills self)) of
             Inl e \<Rightarrow> Inl e
           | Inr q \<Rightarrow> Inr (q * 100))"

definition FactionMissions_to_dict :: "'dt FactionMissions \<Rightarrow> py_error + faction_dict" where
  "FactionMissions_to_dict self =
     (case get_progress_percentage self of
        Inl e \<Rightarrow> Inl e
      | Inr p \<Rightarrow>
          Inr \<lparr> faction_dict.faction_name = faction_name self,
                faction_dict.missions =
                  fold (\<lambda>(nm, mission) d. dict_setitem d nm (MissionData_to_dict mission))
                    (missions self) [],
                faction_dict.total_initial_kills = total_initial_kills self,
                faction_dict.total_current_kills = total_current_kills self,
                faction_dict.total_reward = total_reward self,
                progress_percentage = p \<rparr>)"

section \<open>mission\_stack.py: MissionStack\<close>

text \<open>
  The stack is \<open>target faction \<rightarrow> issuing faction \<rightarrow> FactionMissions\<close>. Its logger only
  writes messages and is not modelled.
\<close>

record 'dt MissionStack =
  missions :: "(string, (string, 'dt FactionMissions) dict) dict"

definition MissionStack_init :: "'dt MissionStack" where
  "MissionStack_init = \<lparr> missions = [] \<rparr>"

text \<open>
  A method of the ledger object held under \<open>self.missions[t][f]\<close> changes that object in
  place: \<open>set_ledger\<close> puts the ledger as it is after the call at its place.
\<close>

definition set_ledger ::
  "'dt MissionStack \<Rightarrow> string \<Rightarrow> string \<Rightarrow> 'dt FactionMissions \<Rightarrow> 'dt MissionStack" where
  "set_ledger self tname fname fm =
     self\<lparr>missions := AList.map_entry tname (AList.map_entry fname (\<lambda>old. fm)) (missions self)\<rparr>"

definition handle_mission_accepted ::
  "(string \<Rightarrow> 'dt option) \<Rightarrow> 'dt MissionStack \<Rightarrow> event_data
     \<Rightarrow> 'dt MissionStack \<times> (py_error + bool)" where
  "handle_mission_accepted fromisoformat self event_data =
     (let name = py_get (Name event_data) [] in
      if \<not> str_contains ''Mission_Massacre'' name then (self, Inr False)
      else
        let mission_data = MissionData_init fromisoformat event_data;
            target_faction = MissionData.target_faction mission_data;
            issuing_faction = faction mission_data;
            self1 = (if \<not> dict_contains (missions self) target_faction
                     then self\<lparr>missions := dict_setitem (missions self) target_faction []\<rparr>
                     else self)
        in case dict_getitem (missions self1) target_faction of
             Inl e \<Rightarrow> (self1, Inl e)
           | Inr bucket \<Rightarrow>
               let bucket1 = (if \<not> dict_contains bucket issuing_faction
                                then dict_setitem bucket issuing_faction
                                       (FactionMissions_init issuing_faction)
                                else bucket);
                   self2 = self1\<lparr>missions := dict_setitem (missions self1) target_faction bucket1\<rparr>
               in case dict_getitem bucket1 issuing_faction of
                    Inl e \<Rightarrow> (self2, Inl e)
                  | Inr faction_missions \<Rightarrow>
                      (case add_mission faction_missions mission_data of
                         (faction_missions', r) \<Rightarrow>
                           let self3 = set_ledger self2 target_faction issuing_faction
                                         faction_missions'
                           in (case r of Inl e \<Rightarrow> (self3, Inl e) | Inr u \<Rightarrow> (self3, Inr True))))"

text \<open>The two clean-up steps of \<open>_remove_mission_by_id\<close>, taken after a removal.\<close>

definition clean_up_empty_factions ::
  "'dt MissionStack \<Rightarrow> string \<Rightarrow> string \<Rightarrow> 'dt FactionMissions
     \<Rightarrow> 'dt MissionStack \<times> (py_error + unit)" where
  "clean_up_empty_factions self tname fname faction_missions =
     (if FactionMissions.missions faction_missions = [] then
        (case dict_getitem (missions self) tname of
           Inl e \<Rightarrow> (self, Inl e)
         | Inr fs \<Rightarrow>
             (case dict_delitem fs fname of
                Inl e \<Rightarrow> (self, Inl e)
              | Inr fs' \<Rightarrow> (self\<lparr>missions := dict_setitem (missions self) tname fs'\<rparr>, Inr ())))
      else (self, Inr ()))"

definition clean_up_empty_target ::
  "'dt MissionStack \<Rightarrow> string \<Rightarrow> 'dt MissionStack \<times> (py_error + unit)" where
  "clean_up_empty_target self tname =
     (case dict_getitem (missions self) tname of
        Inl e \<Rightarrow> (self, Inl e)
      | Inr fs \<Rightarrow>
          if fs = [] then
            (case dict_delitem (missions self) tname of
               Inl e \<Rightarrow> (self, Inl e)
             | Inr d \<Rightarrow> (self\<lparr>missions := d\<rparr>, Inr ()))
          else (self, Inr ()))"

text \<open>
  \<open>_remove_mission_by_id\<close> walks copies of the two dictionaries, taken before each loop,
  and returns at the first ledger whose \<open>remove_mission\<close> succeeds. The inner loop gives
  \<open>None\<close> when it ends without returning.
\<close>

fun remove_in_factions ::
  "(string \<times> 'dt FactionMissions) list \<Rightarrow> string \<Rightarrow> 'dt MissionStack \<Rightarrow> int
     \<Rightarrow> 'dt MissionStack \<times> (py_error + bool) option" where
  "remove_in_factions [] tname self mid = (self, None)"
| "remove_in_factions ((fname, faction_missions) # rest) tname self mid =
     (case remove_mission faction_missions mid of
        (faction_missions', r) \<Rightarrow>
          let self1 = set_ledger self tname fname faction_missions' in
          (case r of
             Inl e \<Rightarrow> (self1, Some (Inl e))
           | Inr False \<Rightarrow> remove_in_factions rest tname self1 mid
           | Inr True \<Rightarrow>
               (case clean_up_empty_factions self1 tname fname faction_missions' of
                  (self2, Inl e) \<Rightarrow> (self2, Some (Inl e))
                | (self2, Inr u) \<Rightarrow>
                    (case clean_up_empty_target self2 tname of
                       (self3, Inl e) \<Rightarrow> (self3, Some (Inl e))
                     | (self3, Inr u') \<Rightarrow> (self3, Some (Inr True))))))"

fun remove_in_targets ::
  "(string \<times> (string, 'dt FactionMissions) dict) list \<Rightarrow> 'dt MissionStack \<Rightarrow> int
     \<Rightarrow> 'dt MissionStack \<times> (py_error + bool)" where
  "remove_in_targets [] self mid = (self, Inr False)"
| "remove_in_targets ((tname, bucket) # rest) self mid =
     (case remove_in_factions bucket tname self mid of
        (self', Some r) \<Rightarrow> (self', r)
      | (self', None) \<Rightarrow> remove_in_targets rest self' mid)"

definition remove_mission_by_id ::
  "'dt MissionStack \<Rightarrow> int \<Rightarrow> 'dt MissionStack \<times> (py_error + bool)" where
  "remove_mission_by_id self mid = remove_in_targets (missions self) self mid"

definition handle_mission_completed ::
  "'dt MissionStack \<Rightarrow> event_data \<Rightarrow> 'dt MissionStack \<times> (py_error + bool)" where
  "handle_mission_completed self event_data =
     remove_mission_by_id self (py_get (MissionID event_data) 0)"

definition handle_mission_failed ::
  "'dt MissionStack \<Rightarrow> event_data \<Rightarrow> 'dt MissionStack \<times> (py_error + bool)" where
  "handle_mission_failed self event_data =
     remove_mission_by_id self (py_get (MissionID event_data) 0)"

definition handle_mission_abandoned ::
  "'dt MissionStack \<Rightarrow> event_data \<Rightarrow> 'dt MissionStack \<times> (py_error + bool)" where
  "handle_mission_abandoned self event_data =
     remove_mission_by_id self (py_get (MissionID event_data) 0)"

text \<open>
  The body of the \<open>try\<close> in \<open>process_event\<close>, and \<open>process_event\<close> itself, whose
  \<open>except Exception\<close> turns anything raised into the result \<open>False\<close>, with the stack as
  it stood when the exception was raised.
\<close>

definition process_event_try ::
  "(string \<Rightarrow> 'dt option) \<Rightarrow> 'dt MissionStack \<Rightarrow> event_data
     \<Rightarrow> 'dt MissionStack \<times> (py_error + bool)" where
  "process_event_try fromisoformat self event_data =
     (let event_type = py_get (event event_data) [] in
      if event_type = ''MissionAccepted'' then handle_mission_accepted fromisoformat self event_data
      else if event_type = ''MissionCompleted'' then handle_mission_completed self event_data
      else if event_type = ''MissionFailed'' then handle_mission_failed self event_data
      else if event_type = ''MissionAbandoned'' then handle_mission_abandoned self event_data
      else (self, Inr False))"

definition process_event ::
  "(string \<Rightarrow> 'dt option) \<Rightarrow> 'dt MissionStack \<Rightarrow> event_data \<Rightarrow> 'dt MissionStack \<times> bool" where
  "process_event fromisoformat self event_data =
     (case process_event_try fromisoformat self event_data of
        (self', Inl e) \<Rightarrow> (self', False)
      | (self', Inr b) \<Rightarrow> (self', b))"


fun get_summary_factions ::
  "(string \<times> 'dt FactionMissions) list \<Rightarrow> target_summary \<Rightarrow> py_error + target_summary" where
  "get_summary_factions [] ts = Inr ts"
| "get_summary_factions ((fname, faction_missions) # rest) ts =
     (case FactionMissions_to_dict faction_missions of
        Inl e \<Rightarrow> Inl e
      | Inr faction_data \<Rightarrow>
          get_summary_factions rest
            (ts\<lparr>factions := dict_setitem (factions ts) fname faction_data,
                target_summary.total_initial_kills :=
                  target_summary.total_initial_kills ts + faction_dict.total_initial_kills faction_data,
                target_summary.total_current_kills :=
                  target_summary.total_current_kills ts + faction_dict.total_current_kills faction_data,
                target_summary.total_reward :=
                  target_summary.total_reward ts + faction_dict.total_reward faction_data,
                target_summary.total_missions :=
                  target_summary.total_missions ts + int (length (faction_dict.missions faction_data))\<rparr>))"

fun get_summary_targets ::
  "(string \<times> (string, 'dt FactionMissions) dict) list \<Rightarrow> summary \<Rightarrow> py_error + summary" where
  "get_summary_targets [] sm = Inr sm"
| "get_summary_targets ((tname, fs) # rest) sm =
     (case get_summary_factions fs
             \<lparr> factions = [], target_summary.total_initial_kills = 0,
               target_summary.total_current_kills = 0, target_summary.total_reward = 0,
               target_summary.total_missions = 0 \<rparr> of
        Inl e \<Rightarrow> Inl e
      | Inr ts \<Rightarrow>
          get_summary_targets rest
            (sm\<lparr>target_factions := dict_setitem (target_factions sm) tname ts,
                summary.total_initial_kills :=
                  summary.total_initial_kills sm + target_summary.total_initial_kills ts,
                summary.total_current_kills :=
                  summary.total_current_kills sm + target_summary.total_current_kills ts,
                summary.total_reward := summary.total_reward sm + target_summary.total_reward ts,
                summary.total_missions :=
                  summary.total_missions sm + target_summary.total_missions ts\<rparr>))"

definition get_summary :: "'dt MissionStack \<Rightarrow> py_error + summary" where
  "get_summary self =
     get_summary_targets (missions self)
       \<lparr> target_factions = [], summary.total_initial_kills = 0,
         summary.total_current_kills = 0, summary.total_reward = 0,
         summary.total_missions = 0 \<rparr>"

section \<open>kill\_ratio.py: KillRatioCalculator\<close>

text \<open>
  \<open>_calculate_faction_remaining_kills\<close> is given the \<open>FactionMissions\<close> objects of the
  stack, so it takes the branch for an object with a \<open>missions\<close> attribute. \<open>sorted\<close>
  with \<open>reverse=True\<close> is stable and descending in the key.
\<close>

definition calculate_faction_remaining_kills :: "'dt FactionMissions \<Rightarrow> int" where
  "calculate_faction_remaining_kills faction_missions =
     (let ms = map snd (FactionMissions.missions faction_missions);
          sorted_missions = sort_key (\<lambda>m. - current_kill_count m) ms
      in fold (\<lambda>mission total_remaining. total_remaining + current_kill_count mission)
           sorted_missions 0)"

definition compute_kill_ratio :: "(string, int) dict \<Rightarrow> py_error + real" where
  "compute_kill_ratio faction_remaining_kills =
     (let total_factions = length faction_remaining_kills in
      if total_factions = 0 then Inr 0
      else if total_factions = 1 then Inr 1
      else
        let total_remaining = sum_list (map snd faction_remaining_kills) in
        if total_remaining = 0 then Inr 0
        else
          (case py_max (map snd faction_remaining_kills) of
             Inl e \<Rightarrow> Inl e
           | Inr max_remaining \<Rightarrow>
          (case py_truediv (real_of_int total_remaining) (real total_factions) of
             Inl e \<Rightarrow> Inl e
           | Inr avg_remaining \<Rightarrow>
          (case (if max_remaining > 0
                 then py_truediv avg_remaining (real_of_int max_remaining) else Inr 1) of
             Inl e \<Rightarrow> Inl e
           | Inr distribution_factor \<Rightarrow>
          (case (if total_remaining > 0
                 then py_truediv (real_of_int max_remaining) (real_of_int total_remaining)
                 else Inr 0) of
             Inl e \<Rightarrow> Inl e
           | Inr base_ratio \<Rightarrow>
               let ratio = base_ratio * distribution_factor
               in Inr (max 0 (min 1 ratio)))))))"

definition calculate_target_faction_ratio ::
  "string \<Rightarrow> (string, 'dt FactionMissions) dict \<Rightarrow> py_error + real" where
  "calculate_target_faction_ratio tname factions_data =
     (if length factions_data = 1 then Inr 1
      else
        let faction_remaining_kills =
              fold (\<lambda>(fname, faction_missions) d.
                      dict_setitem d fname (calculate_faction_remaining_kills faction_missions))
                factions_data []
        in compute_kill_ratio faction_remaining_kills)"

fun calculate_ratios_loop ::
  "(string \<times> (string, 'dt FactionMissions) dict) list \<Rightarrow> (string, real) dict
     \<Rightarrow> py_error + (string, real) dict" where
  "calculate_ratios_loop [] ratios = Inr ratios"
| "calculate_ratios_loop ((tname, factions_data) # rest) ratios =
     (case calculate_target_faction_ratio tname factions_data of
        Inl e \<Rightarrow> Inl e
      | Inr ratio \<Rightarrow> calculate_ratios_loop rest (dict_setitem ratios tname ratio))"

definition calculate_ratios ::
  "(string, (string, 'dt FactionMissions) dict) dict \<Rightarrow> py_error + (string, real) dict" where
  "calculate_ratios mission_stack = calculate_ratios_loop mission_stack []"

definition get_kill_ratios :: "'dt MissionStack \<Rightarrow> py_error + (string, real) dict" where
  "get_kill_ratios self = calculate_ratios (missions self)"

section \<open>Quantities named by the specification\<close>

text \<open>
  The remaining kills of an issuing faction, in the words of the specification: the sum of
  the current kill counts of the records its ledger owns; and the list of these sums
  over the issuing factions of one target faction.
\<close>

definition spec_remaining :: "'dt FactionMissions \<Rightarrow> int" where
  "spec_remaining fm = sum_list (map (\<lambda>(k, m). current_kill_count m) (FactionMissions.missions fm))"

definition spec_remaining_kills :: "(string, 'dt FactionMissions) dict \<Rightarrow> int list" where
  "spec_remaining_kills factions_data = map (\<lambda>(fname, fm). spec_remaining fm) factions_data"

section \<open>Well-formed stacks and the records they hold\<close>

text \<open>
  A Python dictionary has each key once. A stack of the program is well formed: the keys
  of the registry, of every bucket and of every ledger are distinct.
\<close>

definition wf_ledger :: "'dt FactionMissions \<Rightarrow> bool" where
  "wf_ledger fm \<longleftrightarrow> distinct (map fst (FactionMissions.missions fm))"

definition wf_bucket :: "(string, 'dt FactionMissions) dict \<Rightarrow> bool" where
  "wf_bucket fs \<longleftrightarrow> distinct (map fst fs) \<and> (\<forall>(fname, fm) \<in> set fs. wf_ledger fm)"

definition wf_stack :: "'dt MissionStack \<Rightarrow> bool" where
  "wf_stack self \<longleftrightarrow>
     distinct (map fst (missions self)) \<and> (\<forall>(tname, fs) \<in> set (missions self). wf_bucket fs)"

text \<open>A ledger, a bucket, the stack holds a record with the given mission id.\<close>

definition ledger_holds :: "'dt FactionMissions \<Rightarrow> int \<Rightarrow> bool" where
  "ledger_holds fm mid \<longleftrightarrow> (\<exists>(key, m) \<in> set (FactionMissions.missions fm). mission_id m = mid)"

definition bucket_holds :: "(string, 'dt FactionMissions) dict \<Rightarrow> int \<Rightarrow> bool" where
  "bucket_holds fs mid \<longleftrightarrow> (\<exists>(fname, fm) \<in> set fs. ledger_holds fm mid)"

definition stack_holds :: "'dt MissionStack \<Rightarrow> int \<Rightarrow> bool" where
  "stack_holds self mid \<longleftrightarrow> (\<exists>(tname, fs) \<in> set (missions self). bucket_holds fs mid)"



section \<open>Example data\<close>

text \<open>
  A parser that rejects every string, an accepted massacre mission as the journal
  reports it, the record made from it, and a ledger filled with records.
\<close>

definition no_datetime :: "string \<Rightarrow> unit option" where
  "no_datetime s = None"

definition accepted_event :: "string \<Rightarrow> string \<Rightarrow> string \<Rightarrow> int \<Rightarrow> int \<Rightarrow> int \<Rightarrow> event_data" where
  "accepted_event lname tname fname kills rew mid =
     \<lparr> event = Some ''MissionAccepted'', MissionID = Some mid,
       Name = Some ''Mission_Massacre_name'', LocalisedName = Some lname,
       Faction = Some fname, TargetFaction = Some tname, KillCount = Some kills,
       Reward = Some rew, Expiry = None, Wing = None, DestinationSystem = None,
       DestinationStation = None, timestamp = None \<rparr>"

definition ex_mission :: "string \<Rightarrow> int \<Rightarrow> int \<Rightarrow> int \<Rightarrow> unit MissionData" where
  "ex_mission lname mid kills rew =
     MissionData_init no_datetime (accepted_event lname ''T'' ''F'' kills rew mid)"

definition ex_ledger :: "string \<Rightarrow> unit MissionData list \<Rightarrow> unit FactionMissions" where
  "ex_ledger fname ms = fold (\<lambda>m fm. fst (add_mission fm m)) ms (FactionMissions_init fname)"

text \<open>
  Three accepted missions, the stack after they are processed from the empty stack, and
  the ledger that one accepted mission makes.
\<close>

definition e2e_event1 :: event_data where
  "e2e_event1 = accepted_event ''k1'' ''Mizete Jet Society'' ''Military Gamers'' 30 40561668 1"

definition e2e_event2 :: event_data where
  "e2e_event2 = accepted_event ''k2'' ''Mizete Jet Society'' ''Gatorma Labour'' 45 16295619 2"

definition e2e_event3 :: event_data where
  "e2e_event3 = accepted_event ''k3'' ''Brothers of Nijoten'' ''Military Gamers'' 25 30106172 3"

definition e2e_stack :: "unit MissionStack" where
  "e2e_stack =
     fst (process_event no_datetime
       (fst (process_event no_datetime
         (fst (process_event no_datetime MissionStack_init e2e_event1)) e2e_event2)) e2e_event3)"

definition e2e_ledger :: "event_data \<Rightarrow> unit FactionMissions" where
  "e2e_ledger e =
     \<lparr> faction_name = py_get (Faction e) [],
       missions = [(py_get (LocalisedName e) [], MissionData_init no_datetime e)],
       total_initial_kills = py_get (KillCount e) 0,
       total_current_kills = py_get (KillCount e) 0,
       total_reward = py_get (Reward e) 0 \<rparr>"

section \<open>Dictionaries and arithmetic\<close>

lemmas ex_defs = ex_ledger_def ex_mission_def accepted_event_def MissionData_init_def
  FactionMissions_init_def add_mission_def dict_contains_def dict_getitem_def dict_setitem_def
  py_get_def update_kill_count_def no_datetime_def endswith_def Let_def

lemma ex_ledger_one:
  "ex_ledger fname [ex_mission lname mid kills rew] =
     \<lparr> faction_name = fname, missions = [(lname, ex_mission lname mid kills rew)],
       total_initial_kills = kills, total_current_kills = kills, total_reward = rew \<rparr>"
  by (simp add: ex_defs)

lemma dict_contains_iff: "dict_contains d k \<longleftrightarrow> k \<in> fst ` set d"
  by (simp add: dict_contains_def map_of_eq_None_iff)

lemma dict_getitem_Some: "map_of d k = Some v \<Longrightarrow> dict_getitem d k = Inr v"
  by (simp add: dict_getitem_def)

lemma dict_contains_Some: "map_of d k = Some v \<Longrightarrow> dict_contains d k"
  by (simp add: dict_contains_def)

lemma update_fresh: "k \<notin> fst ` set d \<Longrightarrow> AList.update k v d = d @ [(k, v)]"
  by (induction d) auto

lemma delete_split:
  "distinct (map fst (pre @ (k, v) # post)) \<Longrightarrow> AList.delete k (pre @ (k, v) # post) = pre @ post"
proof -
  assume d: "distinct (map fst (pre @ (k, v) # post))"
  then have "k \<notin> fst ` set pre" "k \<notin> fst ` set post" by auto
  then show ?thesis by (induction pre) auto
qed

lemma map_of_split:
  "distinct (map fst (pre @ (k, v) # post)) \<Longrightarrow> map_of (pre @ (k, v) # post) k = Some v"
  by (auto simp: map_add_Some_iff map_of_eq_None_iff)

lemma update_split:
  "distinct (map fst (pre @ (k, v) # post)) \<Longrightarrow>
     AList.update k w (pre @ (k, v) # post) = pre @ (k, w) # post"
  by (induction pre) auto

lemma map_entry_split:
  "distinct (map fst (pre @ (k, v) # post)) \<Longrightarrow>
     AList.map_entry k f (pre @ (k, v) # post) = pre @ (k, f v) # post"
  by (induction pre) auto


section \<open>The kill ratio\<close>

lemma fold_add_sum_list: "fold (\<lambda>x (acc::int). acc + f x) xs a = a + sum_list (map f xs)"
  by (induction xs arbitrary: a) auto

lemma sum_list_sort_key: "sum_list (map f (sort_key g xs)) = (sum_list (map f xs) :: int)"
proof -
  have "mset (map f (sort_key g xs)) = mset (map f xs)" by simp
  then show ?thesis by (metis sum_mset_sum_list)
qed

lemma calculate_faction_remaining_kills_eq:
  "calculate_faction_remaining_kills fm = spec_remaining fm"
  by (simp add: calculate_faction_remaining_kills_def spec_remaining_def fold_add_sum_list
      sum_list_sort_key case_prod_unfold comp_def)

lemma fold_setitem_fresh:
  "distinct (map fst d @ map fst xs) \<Longrightarrow>
     fold (\<lambda>(k, v) d. dict_setitem d k (g v)) xs d = d @ map (\<lambda>(k, v). (k, g v)) xs"
proof (induction xs arbitrary: d)
  case Nil
  then show ?case by simp
next
  case (Cons x xs)
  obtain k v where x: "x = (k, v)" by (cases x)
  from Cons.prems have fresh: "k \<notin> fst ` set d" by (auto simp: x)
  have upd: "AList.update k (g v) d = d @ [(k, g v)]"
    using fresh by (induction d) auto
  from Cons.prems have "distinct (map fst (d @ [(k, g v)]) @ map fst xs)" by (auto simp: x)
  from Cons.IH[OF this] show ?case by (simp add: x dict_setitem_def upd)
qed

lemma py_max_Max: "xs \<noteq> [] \<Longrightarrow> py_max xs = Inr (Max (set xs))"
  by (cases xs) (simp_all add: Max.set_eq_fold del: set_simps)


lemma remaining_dict:
  assumes "distinct (map fst fd)"
  shows "fold (\<lambda>(fname, faction_missions) d.
                      dict_setitem d fname (calculate_faction_remaining_kills faction_missions)) fd []
         = map (\<lambda>(k, v). (k, spec_remaining v)) fd"
proof -
  have "fold (\<lambda>(k, v) d. dict_setitem d k (calculate_faction_remaining_kills v)) fd []
        = [] @ map (\<lambda>(k, v). (k, calculate_faction_remaining_kills v)) fd"
    by (rule fold_setitem_fresh) (simp add: assms)
  then show ?thesis by (simp add: calculate_faction_remaining_kills_eq)
qed

lemma snd_remaining: "map snd (map (\<lambda>(k, v). (k, spec_remaining v)) fd) = spec_remaining_kills fd"
  by (simp add: spec_remaining_kills_def case_prod_unfold comp_def)

lemma ratio_unfold:
  assumes "distinct (map fst fd)" "2 \<le> length fd"
  shows "calculate_target_faction_ratio t fd =
     (let rem = spec_remaining_kills fd; total = sum_list rem; maxF = Max (set rem) in
      if total = 0 then Inr 0
      else Inr (max 0 (min 1
        ((if total > 0 then real_of_int maxF / real_of_int total else 0) *
         (if maxF > 0 then (real_of_int total / real (length fd)) / real_of_int maxF else 1)))))"
proof -
  define frk where "frk = fold (\<lambda>(fname, faction_missions) d.
      dict_setitem d fname (calculate_faction_remaining_kills faction_missions)) fd []"
  have frk: "frk = map (\<lambda>(k, v). (k, spec_remaining v)) fd"
    unfolding frk_def by (rule remaining_dict[OF assms(1)])
  have vals: "map snd frk = spec_remaining_kills fd"
    unfolding frk by (rule snd_remaining)
  have len: "length frk = length fd"
    unfolding frk by simp
  have ne: "spec_remaining_kills fd \<noteq> []"
    using assms(2) by (auto simp: spec_remaining_kills_def)
  have n: "length fd \<noteq> 0" "length fd \<noteq> 1" "real (length fd) \<noteq> 0"
    using assms(2) by auto
  have "calculate_target_faction_ratio t fd = compute_kill_ratio frk"
    using n by (simp add: calculate_target_faction_ratio_def frk_def)
  also have "compute_kill_ratio frk =
     (let rem = spec_remaining_kills fd; total = sum_list rem; maxF = Max (set rem) in
      if total = 0 then Inr 0
      else Inr (max 0 (min 1
        ((if total > 0 then real_of_int maxF / real_of_int total else 0) *
         (if maxF > 0 then (real_of_int total / real (length fd)) / real_of_int maxF else 1)))))"
    unfolding compute_kill_ratio_def vals len py_max_Max[OF ne] py_truediv_def Let_def
    using n by simp
  finally show ?thesis .
qed



text \<open>
  C6. A target faction with exactly one issuing faction has ratio 1, whatever the kill
  counts; with no issuing faction it has ratio 0; and with \<open>n \<ge> 2\<close> issuing factions whose
  remaining kills sum to 0 it has ratio 0.
\<close>

theorem kill_ratio_special_cases:
  "(length factions_data = 1 \<longrightarrow> calculate_target_faction_ratio tname factions_data = Inr 1)
   \<and> calculate_target_faction_ratio tname ([] :: (string, 'dt FactionMissions) dict) = Inr 0
   \<and> (distinct (map fst factions_data) \<and> 2 \<le> length factions_data
        \<and> sum_list (spec_remaining_kills factions_data) = 0
      \<longrightarrow> calculate_target_faction_ratio tname factions_data = Inr 0)"
proof (intro conjI impI)
  assume "length factions_data = 1"
  then show "calculate_target_faction_ratio tname factions_data = Inr 1"
    by (simp add: calculate_target_faction_ratio_def)
next
  show "calculate_target_faction_ratio tname ([] :: (string, 'dt FactionMissions) dict) = Inr 0"
    by (simp add: calculate_target_faction_ratio_def compute_kill_ratio_def)
next
  assume "distinct (map fst factions_data) \<and> 2 \<le> length factions_data
        \<and> sum_list (spec_remaining_kills factions_data) = 0"
  then show "calculate_target_faction_ratio tname factions_data = Inr 0"
    by (simp add: ratio_unfold Let_def)
qed

theorem kill_ratio_special_cases_witness:
  "length [(''A'', ex_ledger ''A'' [ex_mission ''k1'' 1 90 0])] = 1
   \<and> calculate_target_faction_ratio ''T'' [(''A'', ex_ledger ''A'' [ex_mission ''k1'' 1 90 0])] = Inr 1
   \<and> calculate_target_faction_ratio ''T'' ([] :: (string, unit FactionMissions) dict) = Inr 0
   \<and> distinct (map fst [(''A'', ex_ledger ''A'' [ex_mission ''k1'' 1 0 5]),
                          (''B'', ex_ledger ''B'' [ex_mission ''k2'' 2 0 7])])
   \<and> 2 \<le> length [(''A'', ex_ledger ''A'' [ex_mission ''k1'' 1 0 5]),
                          (''B'', ex_ledger ''B'' [ex_mission ''k2'' 2 0 7])]
   \<and> sum_list (spec_remaining_kills [(''A'', ex_ledger ''A'' [ex_mission ''k1'' 1 0 5]),
                          (''B'', ex_ledger ''B'' [ex_mission ''k2'' 2 0 7])]) = 0
   \<and> calculate_target_faction_ratio ''T'' [(''A'', ex_ledger ''A'' [ex_mission ''k1'' 1 0 5]),
                          (''B'', ex_ledger ''B'' [ex_mission ''k2'' 2 0 7])] = Inr 0"
proof -
  let ?one = "[(''A'', ex_ledger ''A'' [ex_mission ''k1'' 1 90 0])]"
  let ?two = "[(''A'', ex_ledger ''A'' [ex_mission ''k1'' 1 0 5]),
               (''B'', ex_ledger ''B'' [ex_mission ''k2'' 2 0 7])]"
  have h0: "length ?one = 1" by simp
  have h1: "distinct (map fst ?two)" by simp
  have h2: "2 \<le> length ?two" by simp
  have h3: "sum_list (spec_remaining_kills ?two) = 0"
    by (simp add: spec_remaining_kills_def spec_remaining_def ex_defs)
  from kill_ratio_special_cases[of ?one "''T''"] kill_ratio_special_cases[of ?two "''T''"] h0 h1 h2 h3
  show ?thesis by blast
qed

section \<open>The ledger\<close>

lemma add_mission_new:
  assumes "\<not> dict_contains (FactionMissions.missions self) (localised_name m)"
  shows "add_mission self m =
    (self\<lparr>FactionMissions.missions := FactionMissions.missions self @ [(localised_name m, m)],
          total_initial_kills := total_initial_kills self + initial_kill_count m,
          total_current_kills := total_current_kills self + current_kill_count m,
          total_reward := total_reward self + reward m\<rparr>, Inr ())"
  using assms by (simp add: add_mission_def dict_setitem_def update_fresh dict_contains_iff)

lemma add_mission_existing:
  assumes "map_of (FactionMissions.missions self) (localised_name m) = Some existing"
  shows "add_mission self m =
    (self\<lparr>FactionMissions.missions := AList.update (localised_name m)
             (existing\<lparr>current_kill_count := current_kill_count m\<rparr>) (FactionMissions.missions self)\<rparr>,
     Inr ())"
  using assms
  by (simp add: add_mission_def dict_setitem_def dict_contains_Some dict_getitem_Some
      update_kill_count_def)

lemma add_mission_ok: "snd (add_mission self m) = Inr ()"
proof (cases "map_of (FactionMissions.missions self) (localised_name m)")
  case None
  then have "\<not> dict_contains (FactionMissions.missions self) (localised_name m)"
    by (simp add: dict_contains_def)
  then show ?thesis by (simp add: add_mission_new)
next
  case (Some existing)
  then show ?thesis by (simp add: add_mission_existing)
qed



text \<open>
  C3. When the ledger already holds a record under the key (\<open>localised_name\<close>) of the
  incoming record, \<open>add_mission\<close> only replaces the \<open>current_kill_count\<close> of the record
  it holds by the incoming value: the three totals, the name of the ledger, the keys and
  their order, the other fields of that record and every other record stay as they were.
\<close>

theorem add_mission_existing_key:
  assumes "map_of (FactionMissions.missions self) (localised_name mission_data) = Some existing"
  shows "add_mission self mission_data =
           (self\<lparr>FactionMissions.missions :=
                   AList.update (localised_name mission_data)
                     (existing\<lparr>current_kill_count := current_kill_count mission_data\<rparr>)
                     (FactionMissions.missions self)\<rparr>, Inr ())
       \<and> (let self' = fst (add_mission self mission_data) in
            total_initial_kills self' = total_initial_kills self
          \<and> total_current_kills self' = total_current_kills self
          \<and> total_reward self' = total_reward self
          \<and> faction_name self' = faction_name self
          \<and> map fst (FactionMissions.missions self') = map fst (FactionMissions.missions self)
          \<and> map_of (FactionMissions.missions self') (localised_name mission_data)
              = Some (existing\<lparr>current_kill_count := current_kill_count mission_data\<rparr>)
          \<and> (\<forall>k. k \<noteq> localised_name mission_data \<longrightarrow>
                map_of (FactionMissions.missions self') k = map_of (FactionMissions.missions self) k))"
proof -
  have k: "localised_name mission_data \<in> fst ` set (FactionMissions.missions self)"
    using assms by (metis domI dom_map_of_conv_image_fst)
  show ?thesis
    using k by (simp add: add_mission_existing[OF assms] Let_def update_keys update_conv')
qed

theorem add_mission_existing_key_witness:
  "map_of (FactionMissions.missions (ex_ledger ''A'' [ex_mission ''k1'' 1 30 100]))
      (localised_name (ex_mission ''k1'' 2 45 200)) = Some (ex_mission ''k1'' 1 30 100)
   \<and> add_mission (ex_ledger ''A'' [ex_mission ''k1'' 1 30 100]) (ex_mission ''k1'' 2 45 200) =
       (\<lparr> faction_name = ''A'',
           missions = [(''k1'', (ex_mission ''k1'' 1 30 100)\<lparr>current_kill_count := 45\<rparr>)],
           total_initial_kills = 30, total_current_kills = 30, total_reward = 100 \<rparr>, Inr ())"
proof -
  have h: "map_of (FactionMissions.missions (ex_ledger ''A'' [ex_mission ''k1'' 1 30 100]))
      (localised_name (ex_mission ''k1'' 2 45 200)) = Some (ex_mission ''k1'' 1 30 100)"
    by (simp add: ex_defs)
  have c: "current_kill_count (ex_mission ''k1'' 2 45 200) = 45"
       "localised_name (ex_mission ''k1'' 2 45 200) = ''k1''"
    by (simp_all add: ex_defs)
  from add_mission_existing_key[OF h] h show ?thesis
    by (simp add: c ex_ledger_one)
qed

lemma fold_add_mission_new:
  "distinct (map fst (FactionMissions.missions fm) @ map localised_name ms) \<Longrightarrow>
   fold (\<lambda>m fm. fst (add_mission fm m)) ms fm =
     fm\<lparr>FactionMissions.missions := FactionMissions.missions fm @ map (\<lambda>m. (localised_name m, m)) ms,
        total_initial_kills := total_initial_kills fm + sum_list (map initial_kill_count ms),
        total_current_kills := total_current_kills fm + sum_list (map current_kill_count ms),
        total_reward := total_reward fm + sum_list (map reward ms)\<rparr>"
proof (induction ms arbitrary: fm)
  case Nil
  then show ?case by simp
next
  case (Cons m ms)
  from Cons.prems have fresh: "\<not> dict_contains (FactionMissions.missions fm) (localised_name m)"
    by (auto simp: dict_contains_iff)
  let ?fm1 = "fst (add_mission fm m)"
  have d1: "distinct (map fst (FactionMissions.missions ?fm1) @ map localised_name ms)"
    using Cons.prems by (auto simp: add_mission_new[OF fresh])
  show ?case
    by (simp add: Cons.IH[OF d1]) (simp add: add_mission_new[OF fresh] algebra_simps)
qed

text \<open>
  C4. Adding any number of records with pairwise distinct keys to a fresh ledger leaves the
  three totals equal to the sums of \<open>initial_kill_count\<close>, \<open>current_kill_count\<close> and
  \<open>reward\<close> over the records, and the ledger owns exactly these records.
\<close>

theorem add_distinct_records_totals:
  assumes "distinct (map localised_name ms)"
  shows "let fm = fold (\<lambda>m fm. fst (add_mission fm m)) ms (FactionMissions_init fname) in
           total_initial_kills fm = sum_list (map initial_kill_count ms)
         \<and> total_current_kills fm = sum_list (map current_kill_count ms)
         \<and> total_reward fm = sum_list (map reward ms)
         \<and> map snd (FactionMissions.missions fm) = ms"
proof -
  have "distinct (map fst (FactionMissions.missions (FactionMissions_init fname :: 'a FactionMissions))
          @ map localised_name ms)"
    using assms by (simp add: FactionMissions_init_def)
  from fold_add_mission_new[OF this] show ?thesis
    by (simp add: Let_def FactionMissions_init_def comp_def)
qed

theorem add_distinct_records_totals_witness:
  "distinct (map localised_name [ex_mission ''k1'' 1 30 100, ex_mission ''k2'' 2 45 200])
   \<and> (let fm = fold (\<lambda>m fm. fst (add_mission fm m))
                  [ex_mission ''k1'' 1 30 100, ex_mission ''k2'' 2 45 200]
                  (FactionMissions_init ''A'') in
        total_initial_kills fm = 75 \<and> total_current_kills fm = 75 \<and> total_reward fm = 300)"
proof -
  let ?ms = "[ex_mission ''k1'' 1 30 100, ex_mission ''k2'' 2 45 200]"
  have h: "distinct (map localised_name ?ms)" by (simp add: ex_defs)
  have s: "sum_list (map initial_kill_count ?ms) = 75" "sum_list (map current_kill_count ?ms) = 75"
       "sum_list (map reward ?ms) = 300"
    by (simp_all add: ex_defs)
  from add_distinct_records_totals[OF h, of "''A''"] h s show ?thesis
    by (simp add: Let_def)
qed

text \<open>
  C10. The record made from an accepted event has \<open>initial_kill_count\<close> and
  \<open>current_kill_count\<close> both equal to the \<open>KillCount\<close> of the event, 0 when the key is
  absent; and when the record is added under a new key, the ledger holds it as made, its
  remaining kills at the full quota.
\<close>

theorem accepted_record_starts_at_full_quota:
  "initial_kill_count (MissionData_init fromisoformat e) = (case KillCount e of None \<Rightarrow> 0 | Some k \<Rightarrow> k)
   \<and> current_kill_count (MissionData_init fromisoformat e)
       = initial_kill_count (MissionData_init fromisoformat e)
   \<and> (\<not> dict_contains (FactionMissions.missions self)
           (localised_name (MissionData_init fromisoformat e)) \<longrightarrow>
        (let m = MissionData_init fromisoformat e; self' = fst (add_mission self m) in
           map_of (FactionMissions.missions self') (localised_name m) = Some m
         \<and> current_kill_count m = initial_kill_count m))"
proof -
  have a: "initial_kill_count (MissionData_init fromisoformat e) = (case KillCount e of None \<Rightarrow> 0 | Some k \<Rightarrow> k)"
    by (simp add: MissionData_init_def py_get_def Let_def)
  have b: "current_kill_count (MissionData_init fromisoformat e)
       = initial_kill_count (MissionData_init fromisoformat e)"
    by (simp add: MissionData_init_def Let_def)
  have c: "map_of (FactionMissions.missions (fst (add_mission self m))) (localised_name m) = Some m"
    if "\<not> dict_contains (FactionMissions.missions self) (localised_name m)" for m :: "'a MissionData"
    using that by (simp add: add_mission_new dict_contains_iff map_add_Some_iff map_of_eq_None_iff)
  show ?thesis using a b c by (simp add: Let_def)
qed

theorem accepted_record_starts_at_full_quota_witness:
  "\<not> dict_contains (FactionMissions.missions (FactionMissions_init ''F'' :: unit FactionMissions))
       (localised_name (MissionData_init no_datetime (accepted_event ''k1'' ''T'' ''F'' 30 100 1)))
   \<and> initial_kill_count (MissionData_init no_datetime (accepted_event ''k1'' ''T'' ''F'' 30 100 1)) = 30
   \<and> current_kill_count (MissionData_init no_datetime (accepted_event ''k1'' ''T'' ''F'' 30 100 1)) = 30
   \<and> map_of (FactionMissions.missions (fst (add_mission (FactionMissions_init ''F'')
          (MissionData_init no_datetime (accepted_event ''k1'' ''T'' ''F'' 30 100 1)))))
        ''k1'' = Some (MissionData_init no_datetime (accepted_event ''k1'' ''T'' ''F'' 30 100 1))"
proof -
  let ?e = "accepted_event ''k1'' ''T'' ''F'' 30 100 1"
  let ?fm = "FactionMissions_init ''F'' :: unit FactionMissions"
  have h: "\<not> dict_contains (FactionMissions.missions ?fm) (localised_name (MissionData_init no_datetime ?e))"
    by (simp add: FactionMissions_init_def dict_contains_def)
  have k: "KillCount ?e = Some 30" "localised_name (MissionData_init no_datetime ?e) = ''k1''"
    by (simp_all add: accepted_event_def MissionData_init_def py_get_def)
  from accepted_record_starts_at_full_quota[of no_datetime ?e ?fm] h k show ?thesis
    by (simp add: Let_def)
qed

section \<open>Removal by mission id\<close>

lemma remove_mission_loop_none:
  "\<forall>(key, m) \<in> set ms. mission_id m \<noteq> mid \<Longrightarrow> remove_mission_loop ms fm mid = (fm, Inr False)"
  by (induction ms) auto

lemma remove_mission_none:
  "\<not> ledger_holds fm mid \<Longrightarrow> remove_mission fm mid = (fm, Inr False)"
  unfolding remove_mission_def ledger_holds_def
  by (rule remove_mission_loop_none) auto

lemma remove_mission_loop_found:
  assumes "\<forall>(key, m') \<in> set mpre. mission_id m' \<noteq> mid"
    and "mission_id m = mid"
    and "dict_contains (FactionMissions.missions fm) k"
  shows "remove_mission_loop (mpre @ (k, m) # mpost) fm mid =
     (fm\<lparr>FactionMissions.missions := AList.delete k (FactionMissions.missions fm),
         total_initial_kills := total_initial_kills fm - initial_kill_count m,
         total_current_kills := total_current_kills fm - current_kill_count m,
         total_reward := total_reward fm - reward m\<rparr>, Inr True)"
  using assms by (induction mpre) (auto simp: dict_delitem_def)

lemma remove_mission_found:
  assumes "FactionMissions.missions fm = mpre @ (k, m) # mpost"
    and "wf_ledger fm"
    and "\<forall>(key, m') \<in> set mpre. mission_id m' \<noteq> mid"
    and "mission_id m = mid"
  shows "remove_mission fm mid =
     (fm\<lparr>FactionMissions.missions := mpre @ mpost,
         total_initial_kills := total_initial_kills fm - initial_kill_count m,
         total_current_kills := total_current_kills fm - current_kill_count m,
         total_reward := total_reward fm - reward m\<rparr>, Inr True)"
proof -
  have c: "dict_contains (FactionMissions.missions fm) k"
    by (simp add: assms(1) dict_contains_iff)
  have d: "AList.delete k (FactionMissions.missions fm) = mpre @ mpost"
    using assms(2) unfolding assms(1) wf_ledger_def by (rule delete_split)
  have "remove_mission fm mid = remove_mission_loop (mpre @ (k, m) # mpost) fm mid"
    by (simp add: remove_mission_def assms(1))
  also note remove_mission_loop_found[OF assms(3,4) c]
  finally show ?thesis by (simp add: d)
qed





lemma map_entry_same: "map_of d k = Some v \<Longrightarrow> g v = v \<Longrightarrow> AList.map_entry k g d = d"
  by (induction d) (auto split: if_splits)

lemma set_ledger_same:
  assumes "map_of (missions self) tname = Some fs" and "map_of fs fname = Some fm"
  shows "set_ledger self tname fname fm = self"
proof -
  have "AList.map_entry fname (\<lambda>old. fm) fs = fs"
    using assms(2) by (rule map_entry_same) simp
  with assms(1) have "AList.map_entry tname (AList.map_entry fname (\<lambda>old. fm)) (missions self)
      = missions self"
    by (rule map_entry_same)
  then show ?thesis by (simp add: set_ledger_def)
qed

lemma remove_in_factions_none:
  assumes "map_of (missions self) tname = Some fs"
    and "\<forall>(fname, fm) \<in> set items. map_of fs fname = Some fm \<and> \<not> ledger_holds fm mid"
  shows "remove_in_factions items tname self mid = (self, None)"
  using assms(2)
proof (induction items)
  case Nil
  then show ?case by simp
next
  case (Cons x items)
  obtain fname fm where x: "x = (fname, fm)" by (cases x)
  from Cons.prems have 1: "map_of fs fname = Some fm" and 2: "\<not> ledger_holds fm mid"
    by (auto simp: x)
  from Cons have ih: "remove_in_factions items tname self mid = (self, None)" by simp
  show ?case
    by (simp add: x remove_mission_none[OF 2] set_ledger_same[OF assms(1) 1] ih)
qed

lemma set_ledger_split:
  assumes "missions self = pre @ (tname, fpre @ (fname, fm) # fpost) # post"
    and "distinct (map fst (missions self))"
    and "distinct (map fst (fpre @ (fname, fm) # fpost))"
  shows "set_ledger self tname fname fm' =
           self\<lparr>missions := pre @ (tname, fpre @ (fname, fm') # fpost) # post\<rparr>"
proof -
  have "AList.map_entry tname (AList.map_entry fname (\<lambda>old. fm')) (missions self)
        = pre @ (tname, AList.map_entry fname (\<lambda>old. fm') (fpre @ (fname, fm) # fpost)) # post"
    using assms(2) unfolding assms(1) by (rule map_entry_split)
  also have "AList.map_entry fname (\<lambda>old. fm') (fpre @ (fname, fm) # fpost)
             = fpre @ (fname, fm') # fpost"
    using assms(3) by (rule map_entry_split)
  finally show ?thesis by (simp add: set_ledger_def)
qed

lemma clean_up_empty_factions_split:
  assumes "missions self = pre @ (tname, fpre @ (fname, fm) # fpost) # post"
    and "distinct (map fst (missions self))"
    and "distinct (map fst (fpre @ (fname, fm) # fpost))"
  shows "clean_up_empty_factions self tname fname fm' =
           (if FactionMissions.missions fm' = []
            then self\<lparr>missions := pre @ (tname, fpre @ fpost) # post\<rparr> else self, Inr ())"
proof -
  let ?fs = "fpre @ (fname, fm) # fpost"
  have g: "dict_getitem (missions self) tname = Inr ?fs"
    using assms(2) unfolding assms(1) by (intro dict_getitem_Some map_of_split)
  have c: "dict_contains ?fs fname" by (simp add: dict_contains_iff)
  have d: "AList.delete fname ?fs = fpre @ fpost" using assms(3) by (rule delete_split)
  have u: "AList.update tname (fpre @ fpost) (missions self) = pre @ (tname, fpre @ fpost) # post"
    using assms(2) unfolding assms(1) by (rule update_split)
  show ?thesis
    by (simp add: clean_up_empty_factions_def g dict_delitem_def c d dict_setitem_def u)
qed

lemma clean_up_empty_target_split:
  assumes "missions self = pre @ (tname, fs) # post"
    and "distinct (map fst (missions self))"
  shows "clean_up_empty_target self tname =
           (if fs = [] then self\<lparr>missions := pre @ post\<rparr> else self, Inr ())"
proof -
  have g: "dict_getitem (missions self) tname = Inr fs"
    using assms(2) unfolding assms(1) by (intro dict_getitem_Some map_of_split)
  have c: "dict_contains (missions self) tname" by (simp add: assms(1) dict_contains_iff)
  have d: "AList.delete tname (missions self) = pre @ post"
    using assms(2) unfolding assms(1) by (rule delete_split)
  show ?thesis
    by (simp add: clean_up_empty_target_def g dict_delitem_def c d)
qed

text \<open>The stack after a removal from the ledger \<open>fname\<close> of the bucket \<open>tname\<close>.\<close>

lemma remove_in_factions_hit:
  assumes d: "missions self = pre @ (tname, fpre @ (fname, fm) # fpost) # post"
    and dt: "distinct (map fst (missions self))"
    and df: "distinct (map fst (fpre @ (fname, fm) # fpost))"
    and rm: "remove_mission fm mid = (fm', Inr True)"
  shows "remove_in_factions ((fname, fm) # rest) tname self mid =
     (self\<lparr>missions :=
        (if FactionMissions.missions fm' = []
         then (if fpre @ fpost = [] then pre @ post else pre @ (tname, fpre @ fpost) # post)
         else pre @ (tname, fpre @ (fname, fm') # fpost) # post)\<rparr>, Some (Inr True))"
proof -
  let ?self1 = "self\<lparr>missions := pre @ (tname, fpre @ (fname, fm') # fpost) # post\<rparr>"
  have s1: "set_ledger self tname fname fm' = ?self1"
    using d dt df by (rule set_ledger_split)
  have d1: "missions ?self1 = pre @ (tname, fpre @ (fname, fm') # fpost) # post" by simp
  have dt1: "distinct (map fst (missions ?self1))" using dt unfolding d by simp
  have df1: "distinct (map fst (fpre @ (fname, fm') # fpost))" using df by simp
  note cf = clean_up_empty_factions_split[OF d1 dt1 df1, of fm']
  show ?thesis
  proof (cases "FactionMissions.missions fm' = []")
    case True
    let ?self2 = "self\<lparr>missions := pre @ (tname, fpre @ fpost) # post\<rparr>"
    have cf': "clean_up_empty_factions ?self1 tname fname fm' = (?self2, Inr ())"
      using cf True by simp
    have d2: "missions ?self2 = pre @ (tname, fpre @ fpost) # post" by simp
    have dt2: "distinct (map fst (missions ?self2))" using dt unfolding d by simp
    note ct = clean_up_empty_target_split[OF d2 dt2]
    show ?thesis
      by (simp add: rm s1 cf' True ct)
  next
    case False
    note ct = clean_up_empty_target_split[OF d1 dt1]
    show ?thesis
      by (simp add: rm s1 cf False ct)
  qed
qed

lemma remove_in_factions_found:
  assumes d: "missions self = pre @ (tname, fpre @ (fname, fm) # fpost) # post"
    and dt: "distinct (map fst (missions self))"
    and df: "distinct (map fst (fpre @ (fname, fm) # fpost))"
    and rm: "remove_mission fm mid = (fm', Inr True)"
    and before: "\<forall>(f', x) \<in> set ipre. map_of (fpre @ (fname, fm) # fpost) f' = Some x
                   \<and> \<not> ledger_holds x mid"
  shows "remove_in_factions (ipre @ (fname, fm) # rest) tname self mid =
     (self\<lparr>missions :=
        (if FactionMissions.missions fm' = []
         then (if fpre @ fpost = [] then pre @ post else pre @ (tname, fpre @ fpost) # post)
         else pre @ (tname, fpre @ (fname, fm') # fpost) # post)\<rparr>, Some (Inr True))"
  using before
proof (induction ipre)
  case Nil
  show ?case using remove_in_factions_hit[OF d dt df rm] by simp
next
  case (Cons x ipre)
  obtain f' y where x: "x = (f', y)" by (cases x)
  have m: "map_of (missions self) tname = Some (fpre @ (fname, fm) # fpost)"
    using dt unfolding d by (rule map_of_split)
  from Cons.prems have 1: "map_of (fpre @ (fname, fm) # fpost) f' = Some y"
    and 2: "\<not> ledger_holds y mid"
    by (auto simp: x)
  from Cons have ih: "remove_in_factions (ipre @ (fname, fm) # rest) tname self mid =
     (self\<lparr>missions :=
        (if FactionMissions.missions fm' = []
         then (if fpre @ fpost = [] then pre @ post else pre @ (tname, fpre @ fpost) # post)
         else pre @ (tname, fpre @ (fname, fm') # fpost) # post)\<rparr>, Some (Inr True))"
    by simp
  show ?case
    by (simp add: x remove_mission_none[OF 2] set_ledger_same[OF m 1] ih)
qed

lemma map_of_distinct_mem: "distinct (map fst d) \<Longrightarrow> (k, v) \<in> set d \<Longrightarrow> map_of d k = Some v"
  by simp

lemma remove_in_factions_bucket_none:
  assumes "map_of (missions self) tname = Some fs"
    and "distinct (map fst fs)"
    and "\<not> bucket_holds fs mid"
  shows "remove_in_factions fs tname self mid = (self, None)"
proof (rule remove_in_factions_none[OF assms(1)])
  show "\<forall>(fname, fm) \<in> set fs. map_of fs fname = Some fm \<and> \<not> ledger_holds fm mid"
    using assms(2,3) by (auto simp: bucket_holds_def)
qed

lemma remove_in_targets_none:
  assumes "\<forall>(tname, fs) \<in> set items.
             map_of (missions self) tname = Some fs \<and> distinct (map fst fs) \<and> \<not> bucket_holds fs mid"
  shows "remove_in_targets items self mid = (self, Inr False)"
  using assms
proof (induction items)
  case Nil
  then show ?case by simp
next
  case (Cons x items)
  obtain tname fs where x: "x = (tname, fs)" by (cases x)
  from Cons.prems have "remove_in_factions fs tname self mid = (self, None)"
    by (intro remove_in_factions_bucket_none) (auto simp: x)
  moreover from Cons have "remove_in_targets items self mid = (self, Inr False)" by simp
  ultimately show ?case by (simp add: x)
qed

lemma remove_in_targets_found:
  assumes "\<forall>(t', fs') \<in> set tpre.
             map_of (missions self) t' = Some fs' \<and> distinct (map fst fs') \<and> \<not> bucket_holds fs' mid"
    and "remove_in_factions fs tname self mid = (self', Some r)"
  shows "remove_in_targets (tpre @ (tname, fs) # rest) self mid = (self', r)"
  using assms(1)
proof (induction tpre)
  case Nil
  then show ?case by (simp add: assms(2))
next
  case (Cons x tpre)
  obtain t' fs' where x: "x = (t', fs')" by (cases x)
  from Cons.prems have "remove_in_factions fs' t' self mid = (self, None)"
    by (intro remove_in_factions_bucket_none) (auto simp: x)
  moreover from Cons have "remove_in_targets (tpre @ (tname, fs) # rest) self mid = (self', r)"
    by simp
  ultimately show ?case by (simp add: x)
qed

lemma wf_stack_bucket: "wf_stack self \<Longrightarrow> (tname, fs) \<in> set (missions self) \<Longrightarrow> wf_bucket fs"
  by (auto simp: wf_stack_def)

lemma wf_bucket_ledger: "wf_bucket fs \<Longrightarrow> (fname, fm) \<in> set fs \<Longrightarrow> wf_ledger fm"
  by (auto simp: wf_bucket_def)

lemma remove_mission_by_id_none:
  assumes "wf_stack self" and "\<not> stack_holds self mid"
  shows "remove_mission_by_id self mid = (self, Inr False)"
  unfolding remove_mission_by_id_def
proof (rule remove_in_targets_none, clarify)
  fix tname fs
  assume m: "(tname, fs) \<in> set (missions self)"
  have "map_of (missions self) tname = Some fs"
    using assms(1) m by (simp add: wf_stack_def)
  moreover have "distinct (map fst fs)"
    using wf_stack_bucket[OF assms(1) m] by (simp add: wf_bucket_def)
  moreover have "\<not> bucket_holds fs mid"
    using assms(2) m by (auto simp: stack_holds_def)
  ultimately show "map_of (missions self) tname = Some fs \<and> distinct (map fst fs)
      \<and> \<not> bucket_holds fs mid"
    by simp
qed

text \<open>
  The stack after the removal of the first record with the mission id, in the order of
  the scan: buckets, then ledgers, then records.
\<close>

lemma remove_mission_by_id_found:
  assumes wf: "wf_stack self"
    and split_t: "missions self = pre @ (tname, fs) # post"
    and split_f: "fs = fpre @ (fname, fm) # fpost"
    and split_m: "FactionMissions.missions fm = mpre @ (k, m) # mpost"
    and first_t: "\<forall>(t', fs') \<in> set pre. \<not> bucket_holds fs' mid"
    and first_f: "\<forall>(f', fm') \<in> set fpre. \<not> ledger_holds fm' mid"
    and first_m: "\<forall>(k', m') \<in> set mpre. mission_id m' \<noteq> mid"
    and hit: "mission_id m = mid"
  shows "remove_mission_by_id self mid =
     (let fm' = fm\<lparr>FactionMissions.missions := mpre @ mpost,
                   total_initial_kills := total_initial_kills fm - initial_kill_count m,
                   total_current_kills := total_current_kills fm - current_kill_count m,
                   total_reward := total_reward fm - reward m\<rparr>;
          fs' = (if mpre @ mpost = [] then fpre @ fpost else fpre @ (fname, fm') # fpost)
      in (self\<lparr>missions := (if fs' = [] then pre @ post else pre @ (tname, fs') # post)\<rparr>,
          Inr True))"
proof -
  let ?fm' = "fm\<lparr>FactionMissions.missions := mpre @ mpost,
                   total_initial_kills := total_initial_kills fm - initial_kill_count m,
                   total_current_kills := total_current_kills fm - current_kill_count m,
                   total_reward := total_reward fm - reward m\<rparr>"
  have dt: "distinct (map fst (missions self))" using wf by (simp add: wf_stack_def)
  have wb: "wf_bucket fs" by (rule wf_stack_bucket[OF wf, of tname]) (simp add: split_t)
  have df: "distinct (map fst (fpre @ (fname, fm) # fpost))"
    using wb by (simp add: wf_bucket_def split_f)
  have wl: "wf_ledger fm" by (rule wf_bucket_ledger[OF wb, of fname]) (simp add: split_f)
  have rm: "remove_mission fm mid = (?fm', Inr True)"
    using split_m wl first_m hit by (rule remove_mission_found)
  have d: "missions self = pre @ (tname, fpre @ (fname, fm) # fpost) # post"
    using split_t split_f by simp
  have before_f: "\<forall>(f', x) \<in> set fpre. map_of (fpre @ (fname, fm) # fpost) f' = Some x
                   \<and> \<not> ledger_holds x mid"
  proof clarify
    fix f' x assume "(f', x) \<in> set fpre"
    then have "(f', x) \<in> set (fpre @ (fname, fm) # fpost)" by simp
    from map_of_distinct_mem[OF df this] first_f \<open>(f', x) \<in> set fpre\<close>
    show "map_of (fpre @ (fname, fm) # fpost) f' = Some x \<and> \<not> ledger_holds x mid" by auto
  qed
  have inner: "remove_in_factions fs tname self mid =
     (self\<lparr>missions :=
        (if FactionMissions.missions ?fm' = []
         then (if fpre @ fpost = [] then pre @ post else pre @ (tname, fpre @ fpost) # post)
         else pre @ (tname, fpre @ (fname, ?fm') # fpost) # post)\<rparr>, Some (Inr True))"
    unfolding split_f by (rule remove_in_factions_found[OF d dt df rm before_f])
  have before_t: "\<forall>(t', fs') \<in> set pre.
             map_of (missions self) t' = Some fs' \<and> distinct (map fst fs') \<and> \<not> bucket_holds fs' mid"
  proof clarify
    fix t' fs' assume mem: "(t', fs') \<in> set pre"
    then have mem': "(t', fs') \<in> set (missions self)" by (simp add: split_t)
    have "wf_bucket fs'" using wf_stack_bucket[OF wf mem'] .
    with map_of_distinct_mem[OF dt mem'] first_t mem
    show "map_of (missions self) t' = Some fs' \<and> distinct (map fst fs') \<and> \<not> bucket_holds fs' mid"
      by (auto simp: wf_bucket_def)
  qed
  have "remove_mission_by_id self mid = remove_in_targets (pre @ (tname, fs) # post) self mid"
    by (simp add: remove_mission_by_id_def split_t)
  also note remove_in_targets_found[OF before_t inner]
  finally show ?thesis by (simp add: Let_def)
qed

section \<open>Accepting a mission\<close>

lemma map_entry_update: "AList.map_entry k g (AList.update k b d) = AList.update k (g b) d"
  by (induction d) auto

lemma map_entry_const_update:
  "map_of d k = Some v \<Longrightarrow> AList.map_entry k (\<lambda>old. w) d = AList.update k w d"
  by (induction d) (auto split: if_splits)

lemma handle_mission_accepted_massacre:
  assumes "str_contains ''Mission_Massacre'' (py_get (Name e) [])"
  shows "handle_mission_accepted prs self e =
    (let m = MissionData_init prs e;
         t = MissionData.target_faction m;
         f = MissionData.faction m;
         bucket = (case map_of (missions self) t of None \<Rightarrow> [] | Some b \<Rightarrow> b);
         fm = (case map_of bucket f of None \<Rightarrow> FactionMissions_init f | Some x \<Rightarrow> x)
     in (self\<lparr>missions := AList.update t (AList.update f (fst (add_mission fm m)) bucket)
                              (missions self)\<rparr>, Inr True))"
proof -
  define m where "m = MissionData_init prs e"
  define t where "t = MissionData.target_faction m"
  define f where "f = MissionData.faction m"
  define bucket where "bucket = (case map_of (missions self) t of None \<Rightarrow> [] | Some b \<Rightarrow> b)"
  define fm where "fm = (case map_of bucket f of None \<Rightarrow> FactionMissions_init f | Some x \<Rightarrow> x)"
  define self1 where "self1 = (if \<not> dict_contains (missions self) t
                     then self\<lparr>missions := dict_setitem (missions self) t []\<rparr>
                     else self)"
  define bucket1 where "bucket1 = (if \<not> dict_contains bucket f
                                then dict_setitem bucket f (FactionMissions_init f)
                                else bucket)"
  have g1: "dict_getitem (missions self1) t = Inr bucket"
    by (cases "map_of (missions self) t")
       (simp_all add: self1_def bucket_def dict_contains_def dict_getitem_def dict_setitem_def
          update_conv')
  have g2: "dict_getitem bucket1 f = Inr fm"
    by (cases "map_of bucket f")
       (simp_all add: bucket1_def fm_def dict_contains_def dict_getitem_def dict_setitem_def
          update_conv')
  have u1: "AList.update t x (missions self1) = AList.update t x (missions self)" for x
    by (simp add: self1_def dict_setitem_def)
  have u2: "AList.update f x bucket1 = AList.update f x bucket" for x
    by (simp add: bucket1_def dict_setitem_def)
  have m2: "map_of bucket1 f = Some fm"
    using g2 by (simp add: dict_getitem_def split: option.splits)
  obtain fm' where a: "add_mission fm m = (fm', Inr ())"
    using add_mission_ok[of fm m] by (cases "add_mission fm m") auto
  have sl: "set_ledger (self1\<lparr>missions := dict_setitem (missions self1) t bucket1\<rparr>) t f fm'
        = self\<lparr>missions := AList.update t (AList.update f fm' bucket) (missions self)\<rparr>"
    by (simp add: set_ledger_def dict_setitem_def map_entry_update
        map_entry_const_update[OF m2] u1 u2 self1_def)
  have "handle_mission_accepted prs self e =
      (self\<lparr>missions := AList.update t (AList.update f fm' bucket) (missions self)\<rparr>, Inr True)"
    using assms
    unfolding handle_mission_accepted_def Let_def
    unfolding m_def[symmetric] t_def[symmetric]
    unfolding f_def[symmetric] self1_def[symmetric]
    by (simp add: g1 bucket1_def[symmetric] g2 a sl)
  then show ?thesis
    unfolding Let_def m_def[symmetric] t_def[symmetric]
    unfolding f_def[symmetric] bucket_def[symmetric]
    unfolding fm_def[symmetric] by (simp add: a)
qed

lemma handle_mission_accepted_other:
  "\<not> str_contains ''Mission_Massacre'' (py_get (Name e) []) \<Longrightarrow>
   handle_mission_accepted prs self e = (self, Inr False)"
  by (simp add: handle_mission_accepted_def Let_def)


section \<open>What process\_event preserves\<close>
















lemma process_event_try_cases:
  "process_event_try prs self e =
     (if event e = Some ''MissionAccepted'' then handle_mission_accepted prs self e
      else if event e \<in> {Some ''MissionCompleted'', Some ''MissionFailed'', Some ''MissionAbandoned''}
      then remove_mission_by_id self (py_get (MissionID e) 0)
      else (self, Inr False))"
  by (cases "event e")
     (auto simp: process_event_try_def py_get_def handle_mission_completed_def
        handle_mission_failed_def handle_mission_abandoned_def)

lemma process_event_fst: "fst (process_event prs self e) = fst (process_event_try prs self e)"
  by (simp add: process_event_def split: prod.splits sum.splits)




section \<open>The example stack\<close>

lemma e2e_fields:
  "event (accepted_event l t f k r i) = Some ''MissionAccepted''"
  "py_get (Name (accepted_event l t f k r i)) [] = ''Mission_Massacre_name''"
  "MissionData.target_faction (MissionData_init prs (accepted_event l t f k r i)) = t"
  "MissionData.faction (MissionData_init prs (accepted_event l t f k r i)) = f"
  "MissionData.localised_name (MissionData_init prs (accepted_event l t f k r i)) = l"
  "MissionData.mission_id (MissionData_init prs (accepted_event l t f k r i)) = i"
  "MissionData.initial_kill_count (MissionData_init prs (accepted_event l t f k r i)) = k"
  "MissionData.current_kill_count (MissionData_init prs (accepted_event l t f k r i)) = k"
  "MissionData.reward (MissionData_init prs (accepted_event l t f k r i)) = r"
  by (simp_all add: accepted_event_def MissionData_init_def py_get_def)

lemma process_accepted_example:
  "fst (process_event prs self (accepted_event l t f k r i)) =
    (let m = MissionData_init prs (accepted_event l t f k r i);
         bucket = (case map_of (missions self) t of None \<Rightarrow> [] | Some b \<Rightarrow> b);
         fm = (case map_of bucket f of None \<Rightarrow> FactionMissions_init f | Some x \<Rightarrow> x)
     in self\<lparr>missions := AList.update t (AList.update f (fst (add_mission fm m)) bucket)
                              (missions self)\<rparr>)"
proof -
  have "str_contains ''Mission_Massacre'' (py_get (Name (accepted_event l t f k r i)) [])"
    by (simp add: e2e_fields)
  from handle_mission_accepted_massacre[OF this, of prs self]
  show ?thesis
    by (simp add: process_event_fst process_event_try_cases e2e_fields Let_def
        cong: option.case_cong)
qed

lemma e2e_stack_value:
  "e2e_stack =
     \<lparr> missions =
         [(''Mizete Jet Society'',
             [(''Military Gamers'', e2e_ledger e2e_event1),
              (''Gatorma Labour'', e2e_ledger e2e_event2)]),
          (''Brothers of Nijoten'', [(''Military Gamers'', e2e_ledger e2e_event3)])] \<rparr>"
  unfolding e2e_stack_def e2e_event1_def e2e_event2_def e2e_event3_def
  by (simp add: process_accepted_example Let_def MissionStack_init_def FactionMissions_init_def
      add_mission_new dict_contains_def e2e_fields e2e_ledger_def)
     (simp add: accepted_event_def py_get_def)

lemma e2e_stack_wf: "wf_stack e2e_stack"
  by (simp add: e2e_stack_value wf_stack_def wf_bucket_def wf_ledger_def e2e_ledger_def)

lemma e2e_ledger_holds:
  "ledger_holds (e2e_ledger (accepted_event l t f k r i)) mid \<longleftrightarrow> mid = i"
  by (auto simp: ledger_holds_def e2e_ledger_def e2e_fields)

lemma e2e_stack_holds: "stack_holds e2e_stack mid \<longleftrightarrow> mid \<in> {1, 2, 3}"
  unfolding e2e_stack_value stack_holds_def bucket_holds_def
  by (auto simp: e2e_event1_def e2e_event2_def e2e_event3_def e2e_ledger_holds)


section \<open>The event protocol\<close>

text \<open>
  C2. On a well-formed stack that holds a record with the mission id of a
  \<open>MissionCompleted\<close>, \<open>MissionFailed\<close> or \<open>MissionAbandoned\<close> event, \<open>process_event\<close>
  returns \<open>True\<close> and changes the stack as follows. Let \<open>m\<close> be the first record with the
  id in the order of the scan (bucket \<open>tname\<close>, its ledger \<open>fname\<close>, key \<open>k\<close>; nothing
  before it has the id). Exactly this record is deleted; its \<open>initial_kill_count\<close>,
  \<open>current_kill_count\<close> and \<open>reward\<close> are subtracted from the three totals of its
  ledger; the ledger is taken out of its bucket if it has no record left, and then the
  bucket out of the registry if it has no ledger left. Everything else stays as it was.
  By \<open>first_match\<close> every stack that holds the id has such a first record.
\<close>

theorem remove_by_id_correct:
  assumes wf: "wf_stack self"
    and kind: "event e \<in> {Some ''MissionCompleted'', Some ''MissionFailed'', Some ''MissionAbandoned''}"
    and split_t: "missions self = pre @ (tname, fs) # post"
    and split_f: "fs = fpre @ (fname, fm) # fpost"
    and split_m: "FactionMissions.missions fm = mpre @ (k, m) # mpost"
    and first_t: "\<forall>(t', fs') \<in> set pre. \<not> bucket_holds fs' (py_get (MissionID e) 0)"
    and first_f: "\<forall>(f', fm') \<in> set fpre. \<not> ledger_holds fm' (py_get (MissionID e) 0)"
    and first_m: "\<forall>(k', m') \<in> set mpre. mission_id m' \<noteq> py_get (MissionID e) 0"
    and hit: "mission_id m = py_get (MissionID e) 0"
  shows "process_event fromisoformat self e =
     (let fm' = fm\<lparr>FactionMissions.missions := mpre @ mpost,
                   total_initial_kills := total_initial_kills fm - initial_kill_count m,
                   total_current_kills := total_current_kills fm - current_kill_count m,
                   total_reward := total_reward fm - reward m\<rparr>;
          fs' = (if mpre @ mpost = [] then fpre @ fpost else fpre @ (fname, fm') # fpost)
      in (self\<lparr>missions := (if fs' = [] then pre @ post else pre @ (tname, fs') # post)\<rparr>,
          True))"
proof -
  have "process_event_try fromisoformat self e = remove_mission_by_id self (py_get (MissionID e) 0)"
    using kind by (auto simp: process_event_try_cases)
  with remove_mission_by_id_found[OF wf split_t split_f split_m first_t first_f first_m hit]
  show ?thesis by (simp add: process_event_def Let_def)
qed

theorem remove_by_id_correct_witness:
  "process_event no_datetime e2e_stack
     \<lparr> event = Some ''MissionFailed'', MissionID = Some 2, Name = None, LocalisedName = None,
       Faction = None, TargetFaction = None, KillCount = None, Reward = None, Expiry = None,
       Wing = None, DestinationSystem = None, DestinationStation = None, timestamp = None \<rparr>
   = (\<lparr> missions =
         [(''Mizete Jet Society'', [(''Military Gamers'', e2e_ledger e2e_event1)]),
          (''Brothers of Nijoten'', [(''Military Gamers'', e2e_ledger e2e_event3)])] \<rparr>, True)"
proof -
  let ?e = "\<lparr> event = Some ''MissionFailed'', MissionID = Some 2, Name = None, LocalisedName = None,
       Faction = None, TargetFaction = None, KillCount = None, Reward = None, Expiry = None,
       Wing = None, DestinationSystem = None, DestinationStation = None, timestamp = None \<rparr>"
  have kind: "event ?e \<in> {Some ''MissionCompleted'', Some ''MissionFailed'', Some ''MissionAbandoned''}"
    by simp
  have split_t: "missions e2e_stack =
      [] @ (''Mizete Jet Society'',
             [(''Military Gamers'', e2e_ledger e2e_event1),
              (''Gatorma Labour'', e2e_ledger e2e_event2)])
         # [(''Brothers of Nijoten'', [(''Military Gamers'', e2e_ledger e2e_event3)])]"
    by (simp add: e2e_stack_value)
  have split_f: "[(''Military Gamers'', e2e_ledger e2e_event1),
              (''Gatorma Labour'', e2e_ledger e2e_event2)]
       = [(''Military Gamers'', e2e_ledger e2e_event1)] @ (''Gatorma Labour'', e2e_ledger e2e_event2) # []"
    by simp
  have split_m: "FactionMissions.missions (e2e_ledger e2e_event2)
       = [] @ (''k2'', MissionData_init no_datetime e2e_event2) # []"
    by (simp add: e2e_ledger_def e2e_event2_def accepted_event_def py_get_def)
  have first_t: "\<forall>(t', fs') \<in> set []. \<not> bucket_holds fs' (py_get (MissionID ?e) 0)" by simp
  have first_f: "\<forall>(f', fm') \<in> set [(''Military Gamers'', e2e_ledger e2e_event1)].
       \<not> ledger_holds fm' (py_get (MissionID ?e) 0)"
    by (simp add: py_get_def e2e_event1_def e2e_ledger_holds)
  have first_m: "\<forall>(k', m') \<in> set []. mission_id m' \<noteq> py_get (MissionID ?e) 0" by simp
  have hit: "mission_id (MissionData_init no_datetime e2e_event2) = py_get (MissionID ?e) 0"
    by (simp add: py_get_def e2e_event2_def e2e_fields)
  from remove_by_id_correct[OF e2e_stack_wf kind split_t split_f split_m first_t first_f first_m hit,
      of no_datetime]
  show ?thesis by (simp add: Let_def e2e_stack_value)
qed

text \<open>
  C8. \<open>process_event\<close> returns \<open>False\<close> and leaves the stack as it was when the kind of
  the event is none of the four mission kinds, when the event is a \<open>MissionAccepted\<close>
  whose \<open>Name\<close> does not contain \<open>Mission_Massacre\<close>, and when it is a
  \<open>MissionCompleted\<close>, \<open>MissionFailed\<close> or \<open>MissionAbandoned\<close> whose mission id no
  record of the (well-formed) stack has.
\<close>

theorem process_event_not_handled:
  assumes "event e \<notin> {Some ''MissionAccepted'', Some ''MissionCompleted'', Some ''MissionFailed'',
                        Some ''MissionAbandoned''}
         \<or> (event e = Some ''MissionAccepted''
              \<and> \<not> str_contains ''Mission_Massacre'' (py_get (Name e) []))
         \<or> (event e \<in> {Some ''MissionCompleted'', Some ''MissionFailed'', Some ''MissionAbandoned''}
              \<and> wf_stack self \<and> \<not> stack_holds self (py_get (MissionID e) 0))"
  shows "process_event fromisoformat self e = (self, False)"
proof -
  have "process_event_try fromisoformat self e = (self, Inr False)"
    using assms
    by (auto simp: process_event_try_cases handle_mission_accepted_other remove_mission_by_id_none)
  then show ?thesis by (simp add: process_event_def)
qed

theorem process_event_not_handled_witness:
  "wf_stack e2e_stack \<and> \<not> stack_holds e2e_stack 7
   \<and> process_event no_datetime e2e_stack
       \<lparr> event = Some ''MissionCompleted'', MissionID = Some 7, Name = None, LocalisedName = None,
         Faction = None, TargetFaction = None, KillCount = None, Reward = None, Expiry = None,
         Wing = None, DestinationSystem = None, DestinationStation = None, timestamp = None \<rparr>
     = (e2e_stack, False)"
proof -
  let ?e = "\<lparr> event = Some ''MissionCompleted'', MissionID = Some 7, Name = None, LocalisedName = None,
       Faction = None, TargetFaction = None, KillCount = None, Reward = None, Expiry = None,
       Wing = None, DestinationSystem = None, DestinationStation = None, timestamp = None \<rparr>"
  have h: "\<not> stack_holds e2e_stack 7" by (simp add: e2e_stack_holds)
  have "event ?e \<notin> {Some ''MissionAccepted'', Some ''MissionCompleted'', Some ''MissionFailed'',
                        Some ''MissionAbandoned''}
         \<or> (event ?e = Some ''MissionAccepted''
              \<and> \<not> str_contains ''Mission_Massacre'' (py_get (Name ?e) []))
         \<or> (event ?e \<in> {Some ''MissionCompleted'', Some ''MissionFailed'', Some ''MissionAbandoned''}
              \<and> wf_stack e2e_stack \<and> \<not> stack_holds e2e_stack (py_get (MissionID ?e) 0))"
    using h e2e_stack_wf by (simp add: py_get_def)
  from process_event_not_handled[OF this, of no_datetime] h e2e_stack_wf show ?thesis by simp
qed








section \<open>Summary and ratios of the three accepted missions\<close>

lemma MissionData_init_fields:
  "MissionData.target_faction (MissionData_init prs e) = py_get (TargetFaction e) []"
  "MissionData.faction (MissionData_init prs e) = py_get (Faction e) []"
  "MissionData.localised_name (MissionData_init prs e) = py_get (LocalisedName e) []"
  "MissionData.mission_id (MissionData_init prs e) = py_get (MissionID e) 0"
  "MissionData.initial_kill_count (MissionData_init prs e) = py_get (KillCount e) 0"
  "MissionData.current_kill_count (MissionData_init prs e) = py_get (KillCount e) 0"
  "MissionData.reward (MissionData_init prs e) = py_get (Reward e) 0"
  by (simp_all add: MissionData_init_def Let_def)

lemma process_accepted:
  assumes "event e = Some ''MissionAccepted''"
    and "str_contains ''Mission_Massacre'' (py_get (Name e) [])"
  shows "process_event prs self e =
    (let t = py_get (TargetFaction e) [];
         f = py_get (Faction e) [];
         bucket = (case map_of (missions self) t of None \<Rightarrow> [] | Some b \<Rightarrow> b);
         fm = (case map_of bucket f of None \<Rightarrow> FactionMissions_init f | Some x \<Rightarrow> x)
     in (self\<lparr>missions := AList.update t
            (AList.update f (fst (add_mission fm (MissionData_init prs e))) bucket)
            (missions self)\<rparr>, True))"
  using handle_mission_accepted_massacre[OF assms(2), of prs self] assms(1)
  by (simp add: process_event_def process_event_try_cases Let_def MissionData_init_fields
      cong: option.case_cong)

lemma add_mission_fresh_ledger:
  "fst (add_mission (FactionMissions_init f) m) =
     \<lparr> faction_name = f, missions = [(localised_name m, m)],
       total_initial_kills = initial_kill_count m,
       total_current_kills = current_kill_count m,
       total_reward = reward m \<rparr>"
  by (simp add: add_mission_new dict_contains_def FactionMissions_init_def)

lemma remaining_one:
  "calculate_faction_remaining_kills
     \<lparr> faction_name = f, missions = [(k, m)], total_initial_kills = a,
       total_current_kills = b, total_reward = c \<rparr> = current_kill_count m"
  by (simp add: calculate_faction_remaining_kills_def)

lemma to_dict_reward:
  "FactionMissions_to_dict fm = Inr d \<Longrightarrow> faction_dict.total_reward d = total_reward fm"
  by (auto simp: FactionMissions_to_dict_def split: sum.splits)

lemma to_dict_ok: "\<exists>d. FactionMissions_to_dict fm = Inr d"
  by (simp add: FactionMissions_to_dict_def get_progress_percentage_def py_truediv_def)

lemma get_summary_factions_reward:
  "\<exists>ts'. get_summary_factions fs ts = Inr ts'
       \<and> target_summary.total_reward ts' =
           target_summary.total_reward ts + sum_list (map (\<lambda>(f, fm). total_reward fm) fs)"
proof (induction fs arbitrary: ts)
  case Nil
  then show ?case by simp
next
  case (Cons x fs)
  obtain f fm where x: "x = (f, fm)" by (cases x)
  obtain d where d: "FactionMissions_to_dict fm = Inr d" using to_dict_ok by blast
  let ?ts1 = "ts\<lparr>factions := dict_setitem (factions ts) f d,
                target_summary.total_initial_kills :=
                  target_summary.total_initial_kills ts + faction_dict.total_initial_kills d,
                target_summary.total_current_kills :=
                  target_summary.total_current_kills ts + faction_dict.total_current_kills d,
                target_summary.total_reward :=
                  target_summary.total_reward ts + faction_dict.total_reward d,
                target_summary.total_missions :=
                  target_summary.total_missions ts + int (length (faction_dict.missions d))\<rparr>"
  from Cons[of ?ts1] obtain ts' where
    1: "get_summary_factions fs ?ts1 = Inr ts'"
    and 2: "target_summary.total_reward ts' =
           target_summary.total_reward ?ts1 + sum_list (map (\<lambda>(f, fm). total_reward fm) fs)"
    by blast
  have "get_summary_factions (x # fs) ts = Inr ts'"
    using 1 by (simp add: x d)
  moreover have "target_summary.total_reward ts' =
      target_summary.total_reward ts + sum_list (map (\<lambda>(f, fm). total_reward fm) (x # fs))"
    using 2 by (simp add: x to_dict_reward[OF d])
  ultimately show ?case by blast
qed

lemma get_summary_targets_reward:
  "\<exists>sm'. get_summary_targets ts sm = Inr sm'
       \<and> summary.total_reward sm' =
           summary.total_reward sm
            + sum_list (map (\<lambda>(t, fs). sum_list (map (\<lambda>(f, fm). total_reward fm) fs)) ts)"
proof (induction ts arbitrary: sm)
  case Nil
  then show ?case by simp
next
  case (Cons x ts)
  obtain t fs where x: "x = (t, fs)" by (cases x)
  let ?z = "\<lparr> factions = [], target_summary.total_initial_kills = 0,
               target_summary.total_current_kills = 0, target_summary.total_reward = 0,
               target_summary.total_missions = 0 \<rparr>"
  from get_summary_factions_reward[of fs ?z] obtain r where
    r: "get_summary_factions fs ?z = Inr r"
       "target_summary.total_reward r = sum_list (map (\<lambda>(f, fm). total_reward fm) fs)"
    by auto
  let ?sm1 = "sm\<lparr>target_factions := dict_setitem (target_factions sm) t r,
                summary.total_initial_kills :=
                  summary.total_initial_kills sm + target_summary.total_initial_kills r,
                summary.total_current_kills :=
                  summary.total_current_kills sm + target_summary.total_current_kills r,
                summary.total_reward := summary.total_reward sm + target_summary.total_reward r,
                summary.total_missions :=
                  summary.total_missions sm + target_summary.total_missions r\<rparr>"
  from Cons[of ?sm1] obtain sm' where
    1: "get_summary_targets ts ?sm1 = Inr sm'"
    and 2: "summary.total_reward sm' = summary.total_reward ?sm1
            + sum_list (map (\<lambda>(t, fs). sum_list (map (\<lambda>(f, fm). total_reward fm) fs)) ts)"
    by blast
  have "get_summary_targets (x # ts) sm = Inr sm'"
    using 1 by (simp add: x r(1))
  moreover have "summary.total_reward sm' = summary.total_reward sm
      + sum_list (map (\<lambda>(t, fs). sum_list (map (\<lambda>(f, fm). total_reward fm) fs)) (x # ts))"
    using 2 by (simp add: x r(2))
  ultimately show ?case by blast
qed

lemma get_summary_reward:
  "\<exists>sm. get_summary self = Inr sm
       \<and> summary.total_reward sm =
           sum_list (map (\<lambda>(t, fs). sum_list (map (\<lambda>(f, fm). total_reward fm) fs)) (missions self))"
  using get_summary_targets_reward[of "missions self"
      "\<lparr> target_factions = [], summary.total_initial_kills = 0,
         summary.total_current_kills = 0, summary.total_reward = 0,
         summary.total_missions = 0 \<rparr>"]
  by (simp add: get_summary_def)

text \<open>
  C7. From the empty stack, three accepted massacre missions (target Mizete Jet Society,
  issuer Military Gamers, 30 kills, reward 40561668; target Mizete Jet Society, issuer
  Gatorma Labour, 45 kills, reward 16295619; target Brothers of Nijoten, issuer Military
  Gamers, 25 kills, reward 30106172), whatever their other fields, are all handled and
  give a registry with exactly two buckets, the first with two issuing factions and the
  second with one, the kill ratios 1/2 and 1, and a summary whose total reward is
  86963459.
\<close>

theorem e2e_scenario:
  assumes e1: "event e1 = Some ''MissionAccepted''"
      "str_contains ''Mission_Massacre'' (py_get (Name e1) [])"
      "TargetFaction e1 = Some ''Mizete Jet Society''" "Faction e1 = Some ''Military Gamers''"
      "KillCount e1 = Some 30" "Reward e1 = Some 40561668"
    and e2: "event e2 = Some ''MissionAccepted''"
      "str_contains ''Mission_Massacre'' (py_get (Name e2) [])"
      "TargetFaction e2 = Some ''Mizete Jet Society''" "Faction e2 = Some ''Gatorma Labour''"
      "KillCount e2 = Some 45" "Reward e2 = Some 16295619"
    and e3: "event e3 = Some ''MissionAccepted''"
      "str_contains ''Mission_Massacre'' (py_get (Name e3) [])"
      "TargetFaction e3 = Some ''Brothers of Nijoten''" "Faction e3 = Some ''Military Gamers''"
      "KillCount e3 = Some 25" "Reward e3 = Some 30106172"
    and run: "s1 = process_event fromisoformat MissionStack_init e1"
      "s2 = process_event fromisoformat (fst s1) e2"
      "s3 = process_event fromisoformat (fst s2) e3"
  shows "snd s1 \<and> snd s2 \<and> snd s3
    \<and> map (\<lambda>(tname, fs). (tname, map fst fs)) (missions (fst s3)) =
         [(''Mizete Jet Society'', [''Military Gamers'', ''Gatorma Labour'']),
          (''Brothers of Nijoten'', [''Military Gamers''])]
    \<and> length (missions (fst s3)) = 2
    \<and> get_kill_ratios (fst s3) = Inr [(''Mizete Jet Society'', 1 / 2), (''Brothers of Nijoten'', 1)]
    \<and> (\<exists>sm. get_summary (fst s3) = Inr sm \<and> summary.total_reward sm = 86963459)"
proof -
  let ?L = "\<lambda>e. fst (add_mission (FactionMissions_init (py_get (Faction e) []))
                 (MissionData_init fromisoformat e))"
  have v1: "s1 = (\<lparr>missions = [(''Mizete Jet Society'', [(''Military Gamers'', ?L e1)])]\<rparr>, True)"
    unfolding run(1) process_accepted[OF e1(1,2)]
    by (simp add: Let_def MissionStack_init_def e1 py_get_def)
  have v2: "s2 = (\<lparr>missions = [(''Mizete Jet Society'',
                     [(''Military Gamers'', ?L e1), (''Gatorma Labour'', ?L e2)])]\<rparr>, True)"
    unfolding run(2) process_accepted[OF e2(1,2)] v1
    by (simp add: Let_def e2 py_get_def)
  have v3: "s3 = (\<lparr>missions = [(''Mizete Jet Society'',
                     [(''Military Gamers'', ?L e1), (''Gatorma Labour'', ?L e2)]),
                   (''Brothers of Nijoten'', [(''Military Gamers'', ?L e3)])]\<rparr>, True)"
    unfolding run(3) process_accepted[OF e3(1,2)] v2
    by (simp add: Let_def e3 py_get_def)
  have rem: "calculate_faction_remaining_kills (?L e1) = 30"
      "calculate_faction_remaining_kills (?L e2) = 45"
    by (simp_all add: add_mission_fresh_ledger remaining_one MissionData_init_fields e1 e2 py_get_def)
  have rew: "total_reward (?L e1) = 40561668" "total_reward (?L e2) = 16295619"
      "total_reward (?L e3) = 30106172"
    by (simp_all add: add_mission_fresh_ledger MissionData_init_fields e1 e2 e3 py_get_def)
  have ratios: "get_kill_ratios (fst s3) =
      Inr [(''Mizete Jet Society'', 1 / 2), (''Brothers of Nijoten'', 1)]"
    unfolding v3
    by (simp add: get_kill_ratios_def calculate_ratios_def calculate_target_faction_ratio_def
        compute_kill_ratio_def dict_setitem_def rem py_truediv_def Let_def)
  from get_summary_reward[of "fst s3"] obtain sm where
    sm: "get_summary (fst s3) = Inr sm"
      "summary.total_reward sm =
         sum_list (map (\<lambda>(t, fs). sum_list (map (\<lambda>(f, fm). total_reward fm) fs)) (missions (fst s3)))"
    by blast
  have "summary.total_reward sm = 86963459"
    unfolding sm(2) v3 by (simp add: rew)
  with sm(1) have summ: "\<exists>sm. get_summary (fst s3) = Inr sm \<and> summary.total_reward sm = 86963459"
    by blast
  have shape: "map (\<lambda>(tname, fs). (tname, map fst fs)) (missions (fst s3)) =
         [(''Mizete Jet Society'', [''Military Gamers'', ''Gatorma Labour'']),
          (''Brothers of Nijoten'', [''Military Gamers''])]"
    unfolding v3 by simp
  have len: "length (missions (fst s3)) = 2" unfolding v3 by simp
  have handled: "snd s1 \<and> snd s2 \<and> snd s3" by (simp add: v1 v2 v3)
  from handled shape len ratios summ show ?thesis by blast
qed

theorem e2e_scenario_witness:
  "event e2e_event1 = Some ''MissionAccepted''
   \<and> str_contains ''Mission_Massacre'' (py_get (Name e2e_event1) [])
   \<and> KillCount e2e_event2 = Some 45
   \<and> Reward e2e_event3 = Some 30106172
   \<and> length (missions e2e_stack) = 2
   \<and> get_kill_ratios e2e_stack = Inr [(''Mizete Jet Society'', 1 / 2), (''Brothers of Nijoten'', 1)]
   \<and> (\<exists>sm. get_summary e2e_stack = Inr sm \<and> summary.total_reward sm = 86963459)"
proof -
  have h1: "event e2e_event1 = Some ''MissionAccepted''"
      "str_contains ''Mission_Massacre'' (py_get (Name e2e_event1) [])"
      "TargetFaction e2e_event1 = Some ''Mizete Jet Society''"
      "Faction e2e_event1 = Some ''Military Gamers''"
      "KillCount e2e_event1 = Some 30" "Reward e2e_event1 = Some 40561668"
    by (simp_all add: e2e_event1_def accepted_event_def py_get_def)
  have h2: "event e2e_event2 = Some ''MissionAccepted''"
      "str_contains ''Mission_Massacre'' (py_get (Name e2e_event2) [])"
      "TargetFaction e2e_event2 = Some ''Mizete Jet Society''"
      "Faction e2e_event2 = Some ''Gatorma Labour''"
      "KillCount e2e_event2 = Some 45" "Reward e2e_event2 = Some 16295619"
    by (simp_all add: e2e_event2_def accepted_event_def py_get_def)
  have h3: "event e2e_event3 = Some ''MissionAccepted''"
      "str_contains ''Mission_Massacre'' (py_get (Name e2e_event3) [])"
      "TargetFaction e2e_event3 = Some ''Brothers of Nijoten''"
      "Faction e2e_event3 = Some ''Military Gamers''"
      "KillCount e2e_event3 = Some 25" "Reward e2e_event3 = Some 30106172"
    by (simp_all add: e2e_event3_def accepted_event_def py_get_def)
  from e2e_scenario[OF h1 h2 h3 refl refl refl, of no_datetime] h1(1,2) h2(5) h3(6)
  show ?thesis unfolding e2e_stack_def by blast
qed

end
